theory Spec2Isabelle
  imports Complex_Main "HOL-Library.Sublist"
begin

section \<open>Claro: a line-oriented interpreter (src/claro.c)\<close>

text \<open>
  The theory embeds the interpreter of \<^verbatim>\<open>src/claro.c\<close>: the tokenizer, the
  recursive-descent expression evaluator, the variable store, the function registry and
  the statement dispatcher with its two \<^verbatim>\<open>setjmp\<close>/\<^verbatim>\<open>longjmp\<close> targets.

  Conventions of the embedding.
  \<^item> A C \<^verbatim>\<open>double\<close> is a rational number: arithmetic is exact. The model agrees with
    IEEE arithmetic wherever no rounding, overflow, infinity or NaN occurs (small integers
    and dyadic fractions such as 2.5).
  \<^item> Lines are C strings of at most 255 characters without the newline, as \<^verbatim>\<open>fgets\<close>
    delivers them into the 256-byte buffers once the newline is cut.
  \<^item> Standard input, the files opened by IMPORT and everything written to the standard
    streams are fields of the context record.
  \<^item> Recursion that may not end (WHILE, FOR, recursive CALL) is bounded by fuel: the result
    \<open>None\<close> means that the fuel ran out.
\<close>

subsection \<open>Characters and C library functions\<close>

type_synonym double = rat

definition isspace :: "char \<Rightarrow> bool" where
  "isspace c = (c \<in> set [CHR '' '', CHR 0x09, CHR 0x0A, CHR 0x0B, CHR 0x0C, CHR 0x0D])"

definition isdigit :: "char \<Rightarrow> bool" where
  "isdigit c = (c \<in> set ''0123456789'')"

definition lower_letters :: string where
  "lower_letters = ''abcdefghijklmnopqrstuvwxyz''"

definition upper_letters :: string where
  "upper_letters = ''ABCDEFGHIJKLMNOPQRSTUVWXYZ''"

definition isalpha :: "char \<Rightarrow> bool" where
  "isalpha c = (c \<in> set lower_letters \<or> c \<in> set upper_letters)"

definition isalnum :: "char \<Rightarrow> bool" where
  "isalnum c = (isalpha c \<or> isdigit c)"

definition toupper :: "char \<Rightarrow> char" where
  "toupper c = (case map_of (zip lower_letters upper_letters) c of Some u \<Rightarrow> u | None \<Rightarrow> c)"

text \<open>\<^verbatim>\<open>strcasecmp(a, b) == 0\<close>: equality after case folding.\<close>

definition strcasecmp_eq :: "string \<Rightarrow> string \<Rightarrow> bool" where
  "strcasecmp_eq a b = (map toupper a = map toupper b)"

text \<open>\<^verbatim>\<open>strncasecmp(s, lit, n) == 0\<close> for a literal \<open>lit\<close> of exactly \<open>n\<close> characters.\<close>

definition strncasecmp_eq :: "string \<Rightarrow> string \<Rightarrow> bool" where
  "strncasecmp_eq s lit = (map toupper (take (length lit) s) = map toupper lit)"

text \<open>\<^verbatim>\<open>strncmp(s, lit, n) == 0\<close> for a literal \<open>lit\<close> of exactly \<open>n\<close> characters.\<close>

definition strncmp_eq :: "string \<Rightarrow> string \<Rightarrow> bool" where
  "strncmp_eq s lit = (take (length lit) s = lit)"

definition digit_val :: "char \<Rightarrow> int" where
  "digit_val c = of_char c - 48"

definition digits_val :: "string \<Rightarrow> int" where
  "digits_val ds = foldl (\<lambda>a c. 10 * a + digit_val c) 0 ds"

definition pow10 :: "int \<Rightarrow> rat" where
  "pow10 e = (if 0 \<le> e then 10 ^ nat e else 1 / 10 ^ nat (- e))"

text \<open>
  The optional exponent part of a decimal floating constant: \<^verbatim>\<open>e\<close> or \<^verbatim>\<open>E\<close>, an
  optional sign and at least one digit; otherwise nothing is consumed.
\<close>

definition strtod_exponent :: "string \<Rightarrow> int \<times> string" where
  "strtod_exponent s =
     (case s of
        [] \<Rightarrow> (0, s)
      | c # t \<Rightarrow>
          if c = CHR ''e'' \<or> c = CHR ''E'' then
            (let neg = (case t of d # _ \<Rightarrow> d = CHR ''-'' | [] \<Rightarrow> False);
                 t' = (case t of d # u \<Rightarrow> if d = CHR ''-'' \<or> d = CHR ''+'' then u else t
                       | [] \<Rightarrow> t);
                 ds = takeWhile isdigit t'
             in if ds = [] then (0, s)
                else ((if neg then - digits_val ds else digits_val ds),
                      dropWhile isdigit t'))
          else (0, s))"

text \<open>
  The C library's \<^verbatim>\<open>strtod\<close>, for decimal constants (digits, an optional fraction, an
  optional exponent); hexadecimal constants, infinities and NaN are not modelled. The result
  is the value and the unconsumed rest; without any digit nothing is consumed and the value
  is 0.
\<close>

definition strtod_decimal :: "string \<Rightarrow> (double \<times> string) option" where
  "strtod_decimal s =
     (let ip = takeWhile isdigit s;
          r1 = dropWhile isdigit s;
          has_point = (case r1 of c # _ \<Rightarrow> c = CHR ''.'' | [] \<Rightarrow> False);
          fp = (if has_point then takeWhile isdigit (drop 1 r1) else []);
          r2 = (if has_point then dropWhile isdigit (drop 1 r1) else r1)
      in if ip = [] \<and> fp = [] then None
         else (case strtod_exponent r2 of
                 (e, r3) \<Rightarrow>
                   Some (of_int (digits_val (ip @ fp)) / 10 ^ length fp * pow10 e, r3)))"

definition strtod :: "string \<Rightarrow> double \<times> string" where
  "strtod s =
     (let p = dropWhile isspace s;
          neg = (case p of c # _ \<Rightarrow> c = CHR ''-'' | [] \<Rightarrow> False);
          q = (case p of c # t \<Rightarrow> if c = CHR ''-'' \<or> c = CHR ''+'' then t else p | [] \<Rightarrow> p)
      in case strtod_decimal q of
           None \<Rightarrow> (0, s)
         | Some (v, rest) \<Rightarrow> ((if neg then - v else v), rest))"

definition atof :: "string \<Rightarrow> double" where
  "atof s = fst (strtod s)"

definition atoi :: "string \<Rightarrow> int" where
  "atoi s =
     (let p = dropWhile isspace s;
          neg = (case p of c # _ \<Rightarrow> c = CHR ''-'' | [] \<Rightarrow> False);
          q = (case p of c # t \<Rightarrow> if c = CHR ''-'' \<or> c = CHR ''+'' then t else p | [] \<Rightarrow> p);
          n = digits_val (takeWhile isdigit q)
      in if neg then - n else n)"

text \<open>
  \<^verbatim>\<open>printf("%d", n)\<close>: \<open>decimal_digits\<close> writes a number that is not negative.
\<close>

function decimal_digits :: "int \<Rightarrow> string" where
  "decimal_digits n =
     (if n < 10 then [char_of (48 + n)]
      else decimal_digits (n div 10) @ [char_of (48 + n mod 10)])"
  by pat_completeness auto
termination
  by (relation "measure nat") auto

definition string_of_int :: "int \<Rightarrow> string" where
  "string_of_int i = (if i < 0 then CHR ''-'' # decimal_digits (- i) else decimal_digits i)"

text \<open>
  \<^verbatim>\<open>printf("%g", v)\<close>: six significant digits, rounded to nearest (ties to even) from the
  exact value, trailing zeros removed, exponent style when the decimal exponent is below
  \<open>-4\<close> or at least \<open>6\<close>.
\<close>

definition dec_exponent :: "rat \<Rightarrow> int" where
  "dec_exponent a =
     (case quotient_of a of
        (n, d) \<Rightarrow>
          (let k = int (length (decimal_digits n)) - int (length (decimal_digits d))
           in if pow10 k \<le> a then k else k - 1))"

definition round_half_even :: "rat \<Rightarrow> int" where
  "round_half_even x =
     (let f = \<lfloor>x\<rfloor>; r = x - of_int f
      in if r < 1 / 2 then f
         else if 1 / 2 < r then f + 1
         else if even f then f else f + 1)"

definition strip_zeros :: "string \<Rightarrow> string" where
  "strip_zeros ds = rev (dropWhile (\<lambda>c. c = CHR ''0'') (rev ds))"

definition with_point :: "string \<Rightarrow> string \<Rightarrow> string" where
  "with_point ip fp = (if strip_zeros fp = [] then ip else ip @ CHR ''.'' # strip_zeros fp)"

definition fmt_g :: "double \<Rightarrow> string" where
  "fmt_g v =
     (if v = 0 then ''0''
      else
        (let a = \<bar>v\<bar>;
             x0 = dec_exponent a;
             m0 = round_half_even (a / pow10 (x0 - 5));
             x = (if m0 = 1000000 then x0 + 1 else x0);
             m = (if m0 = 1000000 then 100000 else m0);
             ds = decimal_digits m;
             body =
               (if x < - 4 \<or> 6 \<le> x then
                  with_point (take 1 ds) (drop 1 ds)
                    @ CHR ''e'' # (if x < 0 then CHR ''-'' else CHR ''+'')
                    # (if \<bar>x\<bar> < 10 then ''0'' else []) @ decimal_digits \<bar>x\<bar>
                else if 0 \<le> x then
                  with_point (take (nat x + 1) ds) (drop (nat x + 1) ds)
                else
                  with_point ''0'' (replicate (nat (- x - 1)) (CHR ''0'') @ ds))
         in (if v < 0 then CHR ''-'' # body else body)))"

subsection \<open>Utility functions\<close>

text \<open>
  \<^verbatim>\<open>trim_whitespace\<close> returns the string without leading and trailing white space. It
  also writes the terminator into its argument: \<open>trim_in_place\<close> is what the caller's
  buffer holds afterwards (a buffer of white space only is left as it is).
\<close>

definition trim_whitespace :: "string \<Rightarrow> string" where
  "trim_whitespace str = rev (dropWhile isspace (rev (dropWhile isspace str)))"

definition trim_in_place :: "string \<Rightarrow> string" where
  "trim_in_place str =
     (if dropWhile isspace str = [] then str else rev (dropWhile isspace (rev str)))"

text \<open>
  \<^verbatim>\<open>tokenize\<close>: white-space separated tokens; a token that starts with a double quote
  runs to the next double quote (or the end of the line) and is stored with the prefix
  \<^verbatim>\<open>S:\<close>.
\<close>

function tokenize :: "string \<Rightarrow> string list" where
  "tokenize line =
     (case dropWhile isspace line of
        [] \<Rightarrow> []
      | c # r \<Rightarrow>
          if c = CHR 0x22 then
            (''S:'' @ takeWhile (\<lambda>x. x \<noteq> CHR 0x22) r)
              # tokenize (drop 1 (dropWhile (\<lambda>x. x \<noteq> CHR 0x22) r))
          else
            takeWhile (\<lambda>x. \<not> isspace x) (c # r)
              # tokenize (dropWhile (\<lambda>x. \<not> isspace x) (c # r)))"
  by pat_completeness auto
termination
proof (relation "measure length", goal_cases)
  case 1
  show ?case by simp
next
  case (2 line c r)
  have "length (dropWhile (\<lambda>x. x \<noteq> CHR 0x22) r) \<le> length r"
    by (rule length_dropWhile_le)
  moreover have "length (c # r) \<le> length line"
    using 2(1)[symmetric] length_dropWhile_le[of isspace line] by simp
  ultimately show ?case by simp
next
  case (3 line c r)
  have "length (c # r) \<le> length line"
    using 3(1)[symmetric] length_dropWhile_le[of isspace line] by simp
  moreover have "\<not> isspace c"
    using 3(1) hd_dropWhile[of isspace line] by auto
  moreover have "length (dropWhile (\<lambda>x. \<not> isspace x) r) \<le> length r"
    by (rule length_dropWhile_le)
  ultimately show ?case by simp
qed

declare tokenize.simps [simp del]
declare decimal_digits.simps [simp del]

text \<open>
  \<^verbatim>\<open>join_tokens(tokens, start, token_count)\<close>: the tokens from \<open>start\<close> up to, not
  including, \<open>token_count\<close>, each followed by a blank unless it is the last of them.
\<close>

fun join_strings :: "string list \<Rightarrow> string" where
  "join_strings [] = []"
| "join_strings [t] = t"
| "join_strings (t # u # ts) = t @ '' '' @ join_strings (u # ts)"

definition join_tokens :: "string list \<Rightarrow> nat \<Rightarrow> nat \<Rightarrow> string" where
  "join_tokens tokens start token_count = join_strings (drop start (take token_count tokens))"

subsection \<open>The interpreter context\<close>

definition MAX_BLOCK_LINES :: nat where "MAX_BLOCK_LINES = 100"
definition MAX_CALL_STACK_DEPTH :: nat where "MAX_CALL_STACK_DEPTH = 100"
definition MAX_VARIABLES :: nat where "MAX_VARIABLES = 100"
definition MAX_FUNCTIONS :: nat where "MAX_FUNCTIONS = 100"

datatype VarType = TYPE_INT | TYPE_FLOAT | TYPE_STRING

record Variable =
  v_name :: string
  v_type :: VarType
  v_value :: string

record FunctionDef =
  f_name :: string
  f_params :: "string list"
  f_code_lines :: "string list"

text \<open>
  A \<^verbatim>\<open>jmp_buf\<close> holds the activation that called \<^verbatim>\<open>setjmp\<close> and the place of the
  call. Activations are numbered in the order in which they start (the field
  \<open>activations\<close> counts them), so a buffer filled by an activation that has returned is
  never mistaken for a live one.
\<close>

datatype site = AtMain | AtLine | AtTry

datatype event = Stdout string | Stderr string | System string

text \<open>
  The fixed arrays of the C structure are lists: \<^verbatim>\<open>variable_count\<close>,
  \<^verbatim>\<open>function_count\<close> and \<^verbatim>\<open>call_stack_depth\<close> are their lengths. The last four
  fields are the environment: the activation counter, the lines still to be read from
  standard input, the files IMPORT can open, and everything written so far.
\<close>

record InterpreterContext =
  code_lines :: "string list"
  current_line :: int
  debug_mode :: bool
  high_contrast_mode :: bool
  audio_mode :: bool
  error_buf :: "nat \<times> site"
  variables :: "Variable list"
  function_table :: "FunctionDef list"
  call_stack :: "string list"
  in_function :: bool
  function_return_value :: double
  function_return_buf :: nat
  activations :: nat
  stdin :: "string list"
  files :: "(string \<times> string list) list"
  outputs :: "event list"

text \<open>
  How a piece of code ends: it returns (\<open>Normal\<close>), a \<^verbatim>\<open>longjmp\<close> to
  \<^verbatim>\<open>error_buf\<close> or to \<^verbatim>\<open>function_return_buf\<close> is on its way to the activation
  named in the buffer (\<open>Fault\<close>, \<open>Return\<close>), the process has ended with
  \<^verbatim>\<open>exit(0)\<close> (\<open>Exit\<close>), or the C standard leaves the behaviour undefined
  (\<open>Undefined\<close>: a null pointer is read, a fixed buffer overflows).
\<close>

datatype 'a result =
    Normal 'a InterpreterContext
  | Fault InterpreterContext
  | Return InterpreterContext
  | Exit InterpreterContext
  | Undefined

definition printf :: "InterpreterContext \<Rightarrow> string \<Rightarrow> InterpreterContext" where
  "printf ctx s = ctx\<lparr>outputs := outputs ctx @ [Stdout s]\<rparr>"

definition COLOR_RESET :: string where "COLOR_RESET = CHR 0x1B # ''[0m''"
definition COLOR_PROMPT :: string where "COLOR_PROMPT = CHR 0x1B # ''[32m''"
definition COLOR_ERROR :: string where "COLOR_ERROR = CHR 0x1B # ''[31m''"
definition COLOR_DEBUG :: string where "COLOR_DEBUG = CHR 0x1B # ''[34m''"
definition HC_COLOR_RESET :: string where "HC_COLOR_RESET = CHR 0x1B # ''[0m''"
definition HC_COLOR_PROMPT :: string where "HC_COLOR_PROMPT = CHR 0x1B # ''[97m''"
definition HC_COLOR_ERROR :: string where "HC_COLOR_ERROR = CHR 0x1B # ''[91m''"
definition HC_COLOR_DEBUG :: string where "HC_COLOR_DEBUG = CHR 0x1B # ''[94m''"

definition debug_log :: "InterpreterContext \<Rightarrow> string \<Rightarrow> InterpreterContext" where
  "debug_log ctx msg =
     (if \<not> debug_mode ctx then ctx
      else printf (printf (printf ctx
             (if high_contrast_mode ctx then HC_COLOR_DEBUG @ ''[DEBUG] '' @ HC_COLOR_RESET
              else COLOR_DEBUG @ ''[DEBUG] '' @ COLOR_RESET)) msg) [CHR 0x0A])"

definition print_error :: "InterpreterContext \<Rightarrow> string \<Rightarrow> int \<Rightarrow> InterpreterContext" where
  "print_error ctx message line_number =
     (let error_color = (if high_contrast_mode ctx then HC_COLOR_ERROR else COLOR_ERROR);
          reset_color = (if high_contrast_mode ctx then HC_COLOR_RESET else COLOR_RESET);
          ctx1 = ctx\<lparr>outputs := outputs ctx @
                   [Stderr (if 0 \<le> line_number
                            then error_color @ ''Oops! Error (line '' @ string_of_int line_number
                                   @ ''): '' @ message @ [CHR 0x0A] @ reset_color
                            else error_color @ ''Oops! Error: '' @ message @ [CHR 0x0A]
                                   @ reset_color)]\<rparr>
      in if audio_mode ctx
         then ctx1\<lparr>outputs := outputs ctx1 @
                 [System (''espeak '' @ [CHR 0x22] @ ''Error: '' @ message @ [CHR 0x22])]\<rparr>
         else ctx1)"

subsection \<open>Variable handling\<close>

fun update_first :: "string \<Rightarrow> string \<Rightarrow> VarType \<Rightarrow> Variable list \<Rightarrow> Variable list" where
  "update_first nm val ty [] = []"
| "update_first nm val ty (x # xs) =
     (if v_name x = nm then x\<lparr>v_value := val, v_type := ty\<rparr> # xs
      else x # update_first nm val ty xs)"

definition set_variable ::
    "InterpreterContext \<Rightarrow> string \<Rightarrow> string \<Rightarrow> VarType \<Rightarrow> InterpreterContext" where
  "set_variable ctx nm val ty =
     (if nm \<in> set (map v_name (variables ctx))
      then ctx\<lparr>variables := update_first nm val ty (variables ctx)\<rparr>
      else if length (variables ctx) < MAX_VARIABLES
      then ctx\<lparr>variables := variables ctx @ [\<lparr>v_name = nm, v_type = ty, v_value = val\<rparr>]\<rparr>
      else print_error ctx ''Maximum variable limit reached'' (- 1))"

definition get_variable :: "InterpreterContext \<Rightarrow> string \<Rightarrow> string option" where
  "get_variable ctx nm = map_option v_value (find (\<lambda>v. v_name v = nm) (variables ctx))"

subsection \<open>Expression parser\<close>

text \<open>
  The parser functions read the context and move a cursor through the expression. A result
  is the value with the rest of the text, or the message of the error that the C code
  prints before it jumps to \<^verbatim>\<open>error_buf\<close>; \<open>evaluate_expression\<close> prints the message
  and raises the jump. Each function takes the next level of the grammar as an argument;
  \<open>parse_comparison\<close> closes the recursion.
\<close>

datatype pres = PVal double string | PFault string

datatype eval_result = Value double | Raised InterpreterContext

definition parse_factor ::
    "(string \<Rightarrow> pres option) \<Rightarrow> InterpreterContext \<Rightarrow> string \<Rightarrow> pres option" where
  "parse_factor pc ctx str0 =
     (let str = dropWhile isspace str0 in
      if strncasecmp_eq str ''true''
           \<and> \<not> (case drop 4 str of c # _ \<Rightarrow> isalnum c | [] \<Rightarrow> False)
      then Some (PVal 1 (drop 4 str))
      else if strncasecmp_eq str ''false''
           \<and> \<not> (case drop 5 str of c # _ \<Rightarrow> isalnum c | [] \<Rightarrow> False)
      then Some (PVal 0 (drop 5 str))
      else if strncmp_eq str ''(''
      then (case pc (drop 1 str) of
              None \<Rightarrow> None
            | Some (PFault m) \<Rightarrow> Some (PFault m)
            | Some (PVal res r) \<Rightarrow>
                if strncmp_eq (dropWhile isspace r) '')''
                then Some (PVal res (drop 1 (dropWhile isspace r)))
                else Some (PFault ''Oops! It looks like you forgot a closing parenthesis.''))
      else if (case str of c # _ \<Rightarrow> isdigit c \<or> c = CHR ''.'' | [] \<Rightarrow> False)
      then Some (PVal (fst (strtod str)) (snd (strtod str)))
      else
        (let varname = takeWhile (\<lambda>c. isalnum c \<or> c = CHR ''_'') str;
             rest = dropWhile (\<lambda>c. isalnum c \<or> c = CHR ''_'') str
         in Some (PVal (case get_variable ctx varname of Some v \<Rightarrow> atof v | None \<Rightarrow> 0) rest)))"

fun parse_term_loop ::
    "nat \<Rightarrow> (string \<Rightarrow> pres option) \<Rightarrow> double \<Rightarrow> string \<Rightarrow> pres option" where
  "parse_term_loop 0 pf res str = None"
| "parse_term_loop (Suc k) pf res str =
     (case dropWhile isspace str of
        [] \<Rightarrow> Some (PVal res [])
      | op # r \<Rightarrow>
          if op = CHR ''*'' \<or> op = CHR ''/'' then
            (case pf r of
               None \<Rightarrow> None
             | Some (PFault m) \<Rightarrow> Some (PFault m)
             | Some (PVal rhs r') \<Rightarrow>
                 if op = CHR ''*'' then parse_term_loop k pf (res * rhs) r'
                 else if rhs = 0 then Some (PFault ''Division by zero is not allowed.'')
                 else parse_term_loop k pf (res / rhs) r')
          else Some (PVal res (op # r)))"

definition parse_term :: "nat \<Rightarrow> (string \<Rightarrow> pres option) \<Rightarrow> string \<Rightarrow> pres option" where
  "parse_term k pf str =
     (case pf str of
        None \<Rightarrow> None
      | Some (PFault m) \<Rightarrow> Some (PFault m)
      | Some (PVal res r) \<Rightarrow> parse_term_loop k pf res r)"

fun parse_expression_loop ::
    "nat \<Rightarrow> (string \<Rightarrow> pres option) \<Rightarrow> double \<Rightarrow> string \<Rightarrow> pres option" where
  "parse_expression_loop 0 pt res str = None"
| "parse_expression_loop (Suc k) pt res str =
     (case dropWhile isspace str of
        [] \<Rightarrow> Some (PVal res [])
      | op # r \<Rightarrow>
          if op = CHR ''+'' \<or> op = CHR ''-'' then
            (case pt r of
               None \<Rightarrow> None
             | Some (PFault m) \<Rightarrow> Some (PFault m)
             | Some (PVal rhs r') \<Rightarrow>
                 if op = CHR ''+'' then parse_expression_loop k pt (res + rhs) r'
                 else parse_expression_loop k pt (res - rhs) r')
          else Some (PVal res (op # r)))"

definition parse_expression ::
    "nat \<Rightarrow> (string \<Rightarrow> pres option) \<Rightarrow> string \<Rightarrow> pres option" where
  "parse_expression k pt str =
     (case pt str of
        None \<Rightarrow> None
      | Some (PFault m) \<Rightarrow> Some (PFault m)
      | Some (PVal res r) \<Rightarrow> parse_expression_loop k pt res r)"

text \<open>
  The comparison operators in the order in which \<^verbatim>\<open>parse_comparison\<close> tests for them,
  each with the number of characters it takes.
\<close>

definition comparison_op :: "string \<Rightarrow> ((double \<Rightarrow> double \<Rightarrow> bool) \<times> nat) option" where
  "comparison_op s =
     (if strncmp_eq s ''=='' then Some ((\<lambda>l r. l = r), 2)
      else if strncmp_eq s ''!='' then Some ((\<lambda>l r. l \<noteq> r), 2)
      else if strncmp_eq s ''<='' then Some ((\<lambda>l r. l \<le> r), 2)
      else if strncmp_eq s ''>='' then Some ((\<lambda>l r. r \<le> l), 2)
      else if strncmp_eq s ''<'' then Some ((\<lambda>l r. l < r), 1)
      else if strncmp_eq s ''>'' then Some ((\<lambda>l r. r < l), 1)
      else None)"

fun parse_comparison_loop ::
    "nat \<Rightarrow> (string \<Rightarrow> pres option) \<Rightarrow> double \<Rightarrow> string \<Rightarrow> pres option" where
  "parse_comparison_loop 0 pe left str = None"
| "parse_comparison_loop (Suc k) pe left str =
     (if dropWhile isspace str = [] then Some (PVal left [])
      else
        (case comparison_op (dropWhile isspace str) of
           None \<Rightarrow> Some (PVal left (dropWhile isspace str))
         | Some (holds, n) \<Rightarrow>
             (case pe (drop n (dropWhile isspace str)) of
                None \<Rightarrow> None
              | Some (PFault m) \<Rightarrow> Some (PFault m)
              | Some (PVal right r') \<Rightarrow>
                  parse_comparison_loop k pe (if holds left right then 1 else 0) r')))"

primrec parse_comparison :: "nat \<Rightarrow> InterpreterContext \<Rightarrow> string \<Rightarrow> pres option" where
  "parse_comparison 0 ctx str = None"
| "parse_comparison (Suc k) ctx str =
     (case parse_expression k (parse_term k (parse_factor (parse_comparison k ctx) ctx)) str of
        None \<Rightarrow> None
      | Some (PFault m) \<Rightarrow> Some (PFault m)
      | Some (PVal left r) \<Rightarrow>
          parse_comparison_loop k
            (parse_expression k (parse_term k (parse_factor (parse_comparison k ctx) ctx)))
            left r)"

definition evaluate_expression ::
    "nat \<Rightarrow> string \<Rightarrow> InterpreterContext \<Rightarrow> eval_result option" where
  "evaluate_expression fuel expr ctx =
     (case parse_comparison fuel ctx expr of
        None \<Rightarrow> None
      | Some (PVal v r) \<Rightarrow> Some (Value v)
      | Some (PFault m) \<Rightarrow> Some (Raised (print_error ctx m (- 1))))"

subsection \<open>Reading blocks from standard input\<close>

text \<open>
  The collecting loops of FUNCTION, WHILE, FOR and TRY: a prompt is printed before every
  \<^verbatim>\<open>fgets\<close>; the loop ends at the end of the input or at the line whose trimmed text
  is the sentinel; every other line is stored as \<^verbatim>\<open>trim_whitespace\<close> left it in the
  buffer. The result is the block, the input that remains and the number of prompts.
\<close>

fun collect_block :: "(string \<Rightarrow> bool) \<Rightarrow> string list \<Rightarrow> string list \<times> string list \<times> nat" where
  "collect_block is_end [] = ([], [], 1)"
| "collect_block is_end (l # ls) =
     (if is_end (trim_whitespace l) then ([], ls, 1)
      else (case collect_block is_end ls of
              (blk, rest, n) \<Rightarrow> (trim_in_place l # blk, rest, Suc n)))"

definition read_block ::
    "string \<Rightarrow> (string \<Rightarrow> bool) \<Rightarrow> InterpreterContext \<Rightarrow> string list \<times> InterpreterContext" where
  "read_block prompt is_end ctx =
     (case collect_block is_end (stdin ctx) of
        (blk, rest, n) \<Rightarrow>
          (blk, ctx\<lparr>stdin := rest, outputs := outputs ctx @ replicate n (Stdout prompt)\<rparr>))"

subsection \<open>Function handling\<close>

definition define_function :: "InterpreterContext \<Rightarrow> string list \<Rightarrow> InterpreterContext" where
  "define_function ctx tokens =
     (if length tokens < 2
      then print_error ctx ''Usage: FUNCTION <name> [params...]'' (current_line ctx + 1)
      else if MAX_FUNCTIONS \<le> length (function_table ctx)
      then print_error ctx ''Maximum function limit reached'' (current_line ctx + 1)
      else
        (case read_block ''... '' (\<lambda>t. t = ''ENDFUNCTION'')
                (printf ctx (''Enter function body lines. Type ENDFUNCTION on a line by itself ''
                   @ ''to finish:'' @ [CHR 0x0A])) of
           (body, ctx1) \<Rightarrow>
             printf
               (ctx1\<lparr>function_table := function_table ctx1 @
                  [\<lparr>f_name = tokens ! 1, f_params = drop 2 tokens, f_code_lines = body\<rparr>]\<rparr>)
               (''Function '' @ [CHR 0x27] @ tokens ! 1 @ [CHR 0x27] @ '' defined with ''
                  @ string_of_int (int (length tokens) - 2) @ '' parameter(s) and ''
                  @ string_of_int (int (length body)) @ '' code line(s).'' @ [CHR 0x0A])))"

fun bind_params ::
    "InterpreterContext \<Rightarrow> string list \<Rightarrow> string list \<Rightarrow> InterpreterContext" where
  "bind_params ctx (p # ps) (a # as) = bind_params (set_variable ctx p a TYPE_FLOAT) ps as"
| "bind_params ctx ps as = ctx"

text \<open>
  The body loop of \<^verbatim>\<open>execute_function\<close>; \<open>exec\<close> is \<^verbatim>\<open>execute_line\<close>.
\<close>

fun function_body ::
    "(InterpreterContext \<Rightarrow> string \<Rightarrow> unit result option) \<Rightarrow> InterpreterContext \<Rightarrow> string
       \<Rightarrow> string list \<Rightarrow> unit result option" where
  "function_body exec ctx fname [] = Some (Normal () ctx)"
| "function_body exec ctx fname (l # ls) =
     (case exec (debug_log ctx (''Function '' @ [CHR 0x27] @ fname @ [CHR 0x27]
                   @ '' executing: '' @ l)) l of
        Some (Normal u c) \<Rightarrow> function_body exec c fname ls
      | other \<Rightarrow> other)"

text \<open>
  The code after the \<^verbatim>\<open>setjmp\<close> of \<^verbatim>\<open>execute_function\<close>: it is reached when the
  body loop ends and when a \<^verbatim>\<open>longjmp\<close> to \<^verbatim>\<open>function_return_buf\<close> lands in this
  activation.
\<close>

definition function_epilogue :: "nat \<Rightarrow> InterpreterContext \<Rightarrow> double result" where
  "function_epilogue local_scope_start c =
     Normal (function_return_value c)
       (c\<lparr>variables := take local_scope_start (variables c),
          in_function := False,
          call_stack := butlast (call_stack c)\<rparr>)"

definition execute_function ::
    "(InterpreterContext \<Rightarrow> string \<Rightarrow> unit result option) \<Rightarrow> InterpreterContext \<Rightarrow> FunctionDef
       \<Rightarrow> string list \<Rightarrow> double result option" where
  "execute_function exec ctx f args =
     (if length args \<noteq> length (f_params f)
      then Some (Normal 0 (printf ctx
             (''Error: Function '' @ [CHR 0x27] @ f_name f @ [CHR 0x27] @ '' expects ''
                @ string_of_int (int (length (f_params f))) @ '' arguments, got ''
                @ string_of_int (int (length args)) @ ''.'' @ [CHR 0x0A])))
      else
        (let local_scope_start = length (variables ctx);
             ctx1 = bind_params ctx (f_params f) args;
             ctx2 = (if length (call_stack ctx1) < MAX_CALL_STACK_DEPTH
                     then ctx1\<lparr>call_stack := call_stack ctx1 @ [f_name f]\<rparr> else ctx1);
             me = activations ctx2;
             ctx3 = ctx2\<lparr>in_function := True, activations := me + 1,
                        function_return_buf := me\<rparr>
         in case function_body exec ctx3 (f_name f) (f_code_lines f) of
              None \<Rightarrow> None
            | Some (Normal u c) \<Rightarrow> Some (function_epilogue local_scope_start c)
            | Some (Return c) \<Rightarrow>
                if function_return_buf c = me
                then Some (function_epilogue local_scope_start c)
                else Some (Return c)
            | Some (Fault c) \<Rightarrow> Some (Fault c)
            | Some (Exit c) \<Rightarrow> Some (Exit c)
            | Some Undefined \<Rightarrow> Some Undefined))"

subsection \<open>Block execution\<close>

fun execute_block ::
    "(InterpreterContext \<Rightarrow> string \<Rightarrow> unit result option) \<Rightarrow> InterpreterContext
       \<Rightarrow> string list \<Rightarrow> unit result option" where
  "execute_block exec ctx [] = Some (Normal () ctx)"
| "execute_block exec ctx (l # ls) =
     (case exec ctx l of
        Some (Normal u c) \<Rightarrow> execute_block exec c ls
      | other \<Rightarrow> other)"

subsection \<open>Command execution\<close>

text \<open>
  In the definitions of this section \<open>exec\<close> stands for the recursive call of
  \<^verbatim>\<open>execute_line\<close>, \<open>k\<close> is the fuel left for loops and for the expression parser,
  and a message with a line number is printed by \<open>error_here\<close>.
\<close>

definition error_here :: "InterpreterContext \<Rightarrow> string \<Rightarrow> unit result option" where
  "error_here ctx message = Some (Normal () (print_error ctx message (current_line ctx + 1)))"

definition quoted :: "string \<Rightarrow> string" where
  "quoted s = [CHR 0x27] @ s @ [CHR 0x27]"

definition set_message :: "string \<Rightarrow> string \<Rightarrow> string" where
  "set_message nm val = ''Variable '' @ quoted nm @ '' set to '' @ quoted val @ [CHR 0x0A]"

definition cmd_set :: "nat \<Rightarrow> InterpreterContext \<Rightarrow> string list \<Rightarrow> unit result option" where
  "cmd_set k ctx tokens =
     (if tokens ! 2 \<noteq> ''=''
      then error_here ctx ''Usage: VARIABLE/SET <name> = <expression>''
      else if strncmp_eq (tokens ! 3) ''S:'' \<and> length tokens = 4
      then Some (Normal ()
             (printf (set_variable ctx (tokens ! 1) (drop 2 (tokens ! 3)) TYPE_STRING)
                (set_message (tokens ! 1) (drop 2 (tokens ! 3)))))
      else
        (case evaluate_expression k (join_tokens tokens 3 (length tokens)) ctx of
           None \<Rightarrow> None
         | Some (Raised c) \<Rightarrow> Some (Fault c)
         | Some (Value v) \<Rightarrow>
             Some (Normal ()
               (printf (set_variable ctx (tokens ! 1) (fmt_g v) TYPE_FLOAT)
                  (set_message (tokens ! 1) (fmt_g v))))))"

definition print_item :: "InterpreterContext \<Rightarrow> string \<Rightarrow> string" where
  "print_item ctx t =
     (if strncmp_eq t ''$''
      then (case get_variable ctx (drop 1 t) of Some v \<Rightarrow> v @ '' '' | None \<Rightarrow> ''[undefined] '')
      else if strncmp_eq t ''S:'' then drop 2 t @ '' ''
      else (case get_variable ctx t of Some v \<Rightarrow> v @ '' '' | None \<Rightarrow> t @ '' ''))"

fun print_tokens :: "InterpreterContext \<Rightarrow> string list \<Rightarrow> InterpreterContext" where
  "print_tokens ctx [] = ctx"
| "print_tokens ctx (t # ts) = print_tokens (printf ctx (print_item ctx t)) ts"

definition cmd_print :: "InterpreterContext \<Rightarrow> string list \<Rightarrow> unit result option" where
  "cmd_print ctx tokens = Some (Normal () (printf (print_tokens ctx (drop 1 tokens)) [CHR 0x0A]))"

definition cmd_get :: "InterpreterContext \<Rightarrow> string list \<Rightarrow> unit result option" where
  "cmd_get ctx tokens =
     (case get_variable ctx (tokens ! 1) of
        Some v \<Rightarrow>
          Some (Normal () (printf ctx
            (''Variable '' @ quoted (tokens ! 1) @ '' = '' @ quoted v @ [CHR 0x0A])))
      | None \<Rightarrow>
          Some (Normal () (printf ctx
            (''Variable '' @ quoted (tokens ! 1) @ '' is not defined.'' @ [CHR 0x0A]))))"

definition cmd_debug :: "InterpreterContext \<Rightarrow> string list \<Rightarrow> unit result option" where
  "cmd_debug ctx tokens =
     (if strcasecmp_eq (tokens ! 1) ''ON''
      then Some (Normal () (printf (ctx\<lparr>debug_mode := True\<rparr>) (''Debug mode enabled.'' @ [CHR 0x0A])))
      else if strcasecmp_eq (tokens ! 1) ''OFF''
      then Some (Normal () (printf (ctx\<lparr>debug_mode := False\<rparr>) (''Debug mode disabled.'' @ [CHR 0x0A])))
      else error_here ctx ''Usage: DEBUG ON|OFF'')"

definition cmd_input :: "InterpreterContext \<Rightarrow> string list \<Rightarrow> unit result option" where
  "cmd_input ctx tokens =
     (let ctx1 = printf ctx (trim_whitespace (join_tokens tokens 2 (length tokens)) @ '' '')
      in case stdin ctx1 of
           l # ls \<Rightarrow>
             Some (Normal ()
               (printf (set_variable (ctx1\<lparr>stdin := ls\<rparr>) (tokens ! 1) (trim_whitespace l)
                          TYPE_STRING)
                  (set_message (tokens ! 1) (trim_whitespace l))))
         | [] \<Rightarrow> error_here ctx1 ''Failed to read input'')"

fun repeat_loop ::
    "(InterpreterContext \<Rightarrow> string \<Rightarrow> unit result option) \<Rightarrow> nat \<Rightarrow> int \<Rightarrow> InterpreterContext
       \<Rightarrow> string \<Rightarrow> unit result option" where
  "repeat_loop exec 0 i ctx repeat_cmd = Some (Normal () ctx)"
| "repeat_loop exec (Suc n) i ctx repeat_cmd =
     (case exec (debug_log ctx (''REPEAT iteration '' @ string_of_int (i + 1) @ '': ''
                   @ repeat_cmd)) repeat_cmd of
        Some (Normal u c) \<Rightarrow> repeat_loop exec n (i + 1) c repeat_cmd
      | other \<Rightarrow> other)"

definition cmd_repeat ::
    "(InterpreterContext \<Rightarrow> string \<Rightarrow> unit result option) \<Rightarrow> InterpreterContext \<Rightarrow> string list
       \<Rightarrow> unit result option" where
  "cmd_repeat exec ctx tokens =
     (if atoi (tokens ! 1) \<le> 0
      then error_here ctx ''REPEAT count must be a positive integer''
      else repeat_loop exec (nat (atoi (tokens ! 1))) 0 ctx
             (join_tokens tokens 2 (length tokens)))"

text \<open>
  The scan of IF for the first THEN, the first ELSE and the first ENDIF, where it stops;
  \<open>None\<close> is the index \<open>-1\<close> of the C code.
\<close>

fun scan_if ::
    "string list \<Rightarrow> nat \<Rightarrow> nat option \<times> nat option \<times> nat option
       \<Rightarrow> nat option \<times> nat option \<times> nat option" where
  "scan_if [] i idx = idx"
| "scan_if (t # ts) i (then_idx, else_idx, endif_idx) =
     (if map toupper t = ''THEN'' \<and> then_idx = None
      then scan_if ts (Suc i) (Some i, else_idx, endif_idx)
      else if map toupper t = ''ELSE'' \<and> else_idx = None
      then scan_if ts (Suc i) (then_idx, Some i, endif_idx)
      else if map toupper t = ''ENDIF'' then (then_idx, else_idx, Some i)
      else scan_if ts (Suc i) (then_idx, else_idx, endif_idx))"

definition cmd_if ::
    "nat \<Rightarrow> (InterpreterContext \<Rightarrow> string \<Rightarrow> unit result option) \<Rightarrow> InterpreterContext
       \<Rightarrow> string list \<Rightarrow> unit result option" where
  "cmd_if k exec ctx tokens =
     (case scan_if (drop 1 tokens) 1 (None, None, None) of
        (None, else_idx, endif_idx) \<Rightarrow>
          error_here ctx ''IF syntax error. Usage: IF <cond> THEN <cmd> [ELSE <cmd>] ENDIF''
      | (Some then_idx, else_idx, None) \<Rightarrow>
          error_here ctx ''IF syntax error. Usage: IF <cond> THEN <cmd> [ELSE <cmd>] ENDIF''
      | (Some then_idx, else_idx, Some endif_idx) \<Rightarrow>
          (case evaluate_expression k (join_tokens tokens 1 then_idx) ctx of
             None \<Rightarrow> None
           | Some (Raised c) \<Rightarrow> Some (Fault c)
           | Some (Value cond_val) \<Rightarrow>
               if cond_val \<noteq> 0 then
                 (case else_idx of
                    None \<Rightarrow> exec ctx (join_tokens tokens (then_idx + 1) endif_idx)
                  | Some e \<Rightarrow> exec ctx (join_tokens tokens (then_idx + 1) e))
               else
                 (case else_idx of
                    None \<Rightarrow> Some (Normal () ctx)
                  | Some e \<Rightarrow> exec ctx (join_tokens tokens (e + 1) endif_idx))))"

fun while_loop ::
    "nat \<Rightarrow> nat \<Rightarrow> (InterpreterContext \<Rightarrow> string \<Rightarrow> unit result option) \<Rightarrow> InterpreterContext
       \<Rightarrow> string \<Rightarrow> string list \<Rightarrow> unit result option" where
  "while_loop 0 k exec ctx cond_expr block_lines = None"
| "while_loop (Suc n) k exec ctx cond_expr block_lines =
     (case evaluate_expression k cond_expr ctx of
        None \<Rightarrow> None
      | Some (Raised c) \<Rightarrow> Some (Fault c)
      | Some (Value v) \<Rightarrow>
          if v \<noteq> 0 then
            (case execute_block exec ctx block_lines of
               Some (Normal u c) \<Rightarrow> while_loop n k exec c cond_expr block_lines
             | other \<Rightarrow> other)
          else Some (Normal () ctx))"

definition cmd_while ::
    "nat \<Rightarrow> (InterpreterContext \<Rightarrow> string \<Rightarrow> unit result option) \<Rightarrow> InterpreterContext
       \<Rightarrow> string list \<Rightarrow> unit result option" where
  "cmd_while k exec ctx tokens =
     (let cond_tokens = takeWhile (\<lambda>t. \<not> strcasecmp_eq t ''BEGIN'') (drop 1 tokens)
      in if 1 + length cond_tokens = length tokens
         then error_here ctx ''WHILE syntax error. Missing BEGIN''
         else
           (case read_block ''... '' (\<lambda>t. strcasecmp_eq t ''ENDWHILE'')
                   (printf ctx (''Enter WHILE loop block lines (type ENDWHILE on a line by ''
                      @ ''itself):'' @ [CHR 0x0A])) of
              (block_lines, ctx1) \<Rightarrow>
                if MAX_BLOCK_LINES < length block_lines then Some Undefined
                else while_loop k k exec ctx1 (concat (map (\<lambda>t. t @ '' '') cond_tokens))
                       block_lines))"

fun for_loop ::
    "nat \<Rightarrow> (InterpreterContext \<Rightarrow> string \<Rightarrow> unit result option) \<Rightarrow> InterpreterContext
       \<Rightarrow> string \<Rightarrow> double \<Rightarrow> double \<Rightarrow> string list \<Rightarrow> unit result option" where
  "for_loop 0 exec ctx var end_val step_val block_lines = None"
| "for_loop (Suc n) exec ctx var end_val step_val block_lines =
     (case get_variable ctx var of
        None \<Rightarrow> Some Undefined
      | Some current_str \<Rightarrow>
          if (if 0 < step_val then atof current_str \<le> end_val else end_val \<le> atof current_str)
          then
            (case execute_block exec ctx block_lines of
               Some (Normal u c) \<Rightarrow>
                 for_loop n exec
                   (set_variable c var (fmt_g (atof current_str + step_val)) TYPE_FLOAT)
                   var end_val step_val block_lines
             | other \<Rightarrow> other)
          else Some (Normal () ctx))"

definition for_body ::
    "nat \<Rightarrow> (InterpreterContext \<Rightarrow> string \<Rightarrow> unit result option) \<Rightarrow> InterpreterContext
       \<Rightarrow> string list \<Rightarrow> double \<Rightarrow> double \<Rightarrow> double \<Rightarrow> nat \<Rightarrow> unit result option" where
  "for_body k exec ctx tokens start_val end_val step_val idx =
     (if length tokens \<le> idx \<or> \<not> strcasecmp_eq (tokens ! idx) ''BEGIN''
      then error_here ctx ''Missing BEGIN in FOR loop declaration''
      else
        (case read_block ''... '' (\<lambda>t. strcasecmp_eq t ''ENDFOR'')
                (printf ctx (''Enter FOR loop block lines (type ENDFOR on a line by itself):''
                   @ [CHR 0x0A])) of
           (block_lines, ctx1) \<Rightarrow>
             if MAX_BLOCK_LINES < length block_lines then Some Undefined
             else for_loop k exec (set_variable ctx1 (tokens ! 1) (fmt_g start_val) TYPE_FLOAT)
                    (tokens ! 1) end_val step_val block_lines))"

definition cmd_for ::
    "nat \<Rightarrow> (InterpreterContext \<Rightarrow> string \<Rightarrow> unit result option) \<Rightarrow> InterpreterContext
       \<Rightarrow> string list \<Rightarrow> unit result option" where
  "cmd_for k exec ctx tokens =
     (if length tokens < 7
      then error_here ctx ''Usage: FOR <var> = <start> TO <end> [STEP <step>] BEGIN''
      else if tokens ! 2 \<noteq> ''=''
      then error_here ctx (''Expected '' @ quoted ''='' @ '' in FOR loop declaration'')
      else
        (case evaluate_expression k (tokens ! 3) ctx of
           None \<Rightarrow> None
         | Some (Raised c) \<Rightarrow> Some (Fault c)
         | Some (Value start_val) \<Rightarrow>
             if \<not> strcasecmp_eq (tokens ! 4) ''TO''
             then error_here ctx (''Expected '' @ quoted ''TO'' @ '' in FOR loop declaration'')
             else
               (case evaluate_expression k (tokens ! 5) ctx of
                  None \<Rightarrow> None
                | Some (Raised c) \<Rightarrow> Some (Fault c)
                | Some (Value end_val) \<Rightarrow>
                    if strcasecmp_eq (tokens ! 6) ''STEP'' then
                      (if 7 < length tokens then
                         (case evaluate_expression k (tokens ! 7) ctx of
                            None \<Rightarrow> None
                          | Some (Raised c) \<Rightarrow> Some (Fault c)
                          | Some (Value step_val) \<Rightarrow>
                              for_body k exec ctx tokens start_val end_val step_val 8)
                       else error_here ctx ''Missing step value in FOR loop'')
                    else for_body k exec ctx tokens start_val end_val 1 6)))"

text \<open>
  TRY up to the end of its first branch: the block is collected, \<^verbatim>\<open>setjmp\<close> stores
  this activation (\<open>me\<close>) in \<^verbatim>\<open>error_buf\<close>, the block runs, and the lines up to
  ENDTRY are read and dropped. \<open>try_catch\<close> is the other branch, where a
  \<^verbatim>\<open>longjmp\<close> to that \<^verbatim>\<open>setjmp\<close> lands.
\<close>

definition cmd_try ::
    "(InterpreterContext \<Rightarrow> string \<Rightarrow> unit result option) \<Rightarrow> nat \<Rightarrow> InterpreterContext
       \<Rightarrow> unit result option" where
  "cmd_try exec me ctx =
     (case read_block ''TRY> '' (\<lambda>t. strcasecmp_eq t ''CATCH'')
             (printf ctx (''Enter TRY block lines (type CATCH on a line by itself):''
                @ [CHR 0x0A])) of
        (try_lines, ctx1) \<Rightarrow>
          if MAX_BLOCK_LINES < length try_lines then Some Undefined
          else
            (case execute_block exec (ctx1\<lparr>error_buf := (me, AtTry)\<rparr>) try_lines of
               Some (Normal u c) \<Rightarrow>
                 Some (Normal ()
                   (snd (read_block ''CATCH> '' (\<lambda>t. strcasecmp_eq t ''ENDTRY'')
                      (printf c (''TRY block executed successfully; skipping CATCH.''
                         @ [CHR 0x0A])))))
             | other \<Rightarrow> other))"

definition try_catch ::
    "(InterpreterContext \<Rightarrow> string \<Rightarrow> unit result option) \<Rightarrow> InterpreterContext
       \<Rightarrow> unit result option" where
  "try_catch exec ctx =
     (case read_block ''CATCH> '' (\<lambda>t. strcasecmp_eq t ''ENDTRY'')
             (printf ctx (''Error in TRY block; executing CATCH block.'' @ [CHR 0x0A])) of
        (catch_lines, ctx1) \<Rightarrow>
          if MAX_BLOCK_LINES < length catch_lines then Some Undefined
          else execute_block exec ctx1 catch_lines)"

definition cmd_import ::
    "(InterpreterContext \<Rightarrow> string \<Rightarrow> unit result option) \<Rightarrow> InterpreterContext \<Rightarrow> string list
       \<Rightarrow> unit result option" where
  "cmd_import exec ctx tokens =
     (case map_of (files ctx) (join_tokens tokens 1 (length tokens)) of
        None \<Rightarrow> error_here ctx ''Could not open import file.''
      | Some file_lines \<Rightarrow> execute_block exec ctx file_lines)"

definition cmd_concat :: "InterpreterContext \<Rightarrow> string list \<Rightarrow> unit result option" where
  "cmd_concat ctx tokens =
     (let v1 = (case get_variable ctx (tokens ! 2) of Some v \<Rightarrow> v | None \<Rightarrow> []);
          v2 = (case get_variable ctx (tokens ! 3) of Some v \<Rightarrow> v | None \<Rightarrow> [])
      in if 255 < length v1 + length v2 then Some Undefined
         else Some (Normal ()
                (printf (set_variable ctx (tokens ! 1) (v1 @ v2) TYPE_STRING)
                   (''Concatenated value stored in '' @ quoted (tokens ! 1) @ ''.''
                      @ [CHR 0x0A]))))"

definition cmd_call ::
    "(InterpreterContext \<Rightarrow> string \<Rightarrow> unit result option) \<Rightarrow> InterpreterContext \<Rightarrow> string list
       \<Rightarrow> unit result option" where
  "cmd_call exec ctx tokens =
     (case find (\<lambda>f. f_name f = tokens ! 1) (function_table ctx) of
        None \<Rightarrow>
          Some (Normal () (printf ctx
            (''Function '' @ quoted (tokens ! 1) @ '' not defined.'' @ [CHR 0x0A])))
      | Some f \<Rightarrow>
          (case execute_function exec ctx f (drop 2 tokens) of
             None \<Rightarrow> None
           | Some (Normal retVal c) \<Rightarrow>
               Some (Normal () (printf c
                 (''Function '' @ quoted (tokens ! 1) @ '' returned '' @ fmt_g retVal
                    @ [CHR 0x0A])))
           | Some (Fault c) \<Rightarrow> Some (Fault c)
           | Some (Return c) \<Rightarrow> Some (Return c)
           | Some (Exit c) \<Rightarrow> Some (Exit c)
           | Some Undefined \<Rightarrow> Some Undefined))"

definition cmd_return :: "nat \<Rightarrow> InterpreterContext \<Rightarrow> string list \<Rightarrow> unit result option" where
  "cmd_return k ctx tokens =
     (if \<not> in_function ctx
      then error_here ctx ''RETURN can only be used inside a function''
      else
        (case evaluate_expression k (join_tokens tokens 1 (length tokens)) ctx of
           None \<Rightarrow> None
         | Some (Raised c) \<Rightarrow> Some (Fault c)
         | Some (Value retVal) \<Rightarrow> Some (Return (ctx\<lparr>function_return_value := retVal\<rparr>))))"

definition cmd_stack :: "InterpreterContext \<Rightarrow> unit result option" where
  "cmd_stack ctx =
     Some (Normal ()
       (foldl (\<lambda>c nm. printf c (''  '' @ nm @ [CHR 0x0A]))
          (printf ctx (''Call Stack (depth '' @ string_of_int (int (length (call_stack ctx)))
             @ ''):'' @ [CHR 0x0A]))
          (call_stack ctx)))"

fun trace_params :: "InterpreterContext \<Rightarrow> string list \<Rightarrow> InterpreterContext" where
  "trace_params ctx [] = ctx"
| "trace_params ctx [p] = printf ctx p"
| "trace_params ctx (p # q # ps) = trace_params (printf (printf ctx p) '', '') (q # ps)"

definition cmd_trace :: "InterpreterContext \<Rightarrow> unit result option" where
  "cmd_trace ctx =
     (let c1 = printf ctx (''---- TRACE ----'' @ [CHR 0x0A]);
          c2 = printf c1 (''Variables ('' @ string_of_int (int (length (variables ctx)))
                 @ ''):'' @ [CHR 0x0A]);
          c3 = foldl (\<lambda>c v. printf c (''  '' @ v_name v @ '' = '' @ v_value v @ [CHR 0x0A]))
                 c2 (variables ctx);
          c4 = printf c3 (''Functions ('' @ string_of_int (int (length (function_table ctx)))
                 @ ''):'' @ [CHR 0x0A]);
          c5 = foldl (\<lambda>c f.
                   printf (trace_params (printf c (''  '' @ f_name f @ ''('')) (f_params f))
                     ('') with '' @ string_of_int (int (length (f_code_lines f))) @ '' lines''
                        @ [CHR 0x0A]))
                 c4 (function_table ctx)
      in Some (Normal () (printf c5 (''---- END TRACE ----'' @ [CHR 0x0A]))))"

text \<open>
  \<^verbatim>\<open>show_help\<close>, \<^verbatim>\<open>show_cheatsheet\<close> and \<^verbatim>\<open>show_guided_tutorial\<close> print fixed
  texts and change nothing else; each is one output event that holds the heading of the
  text.
\<close>

definition show_help :: "InterpreterContext \<Rightarrow> InterpreterContext" where
  "show_help ctx = printf ctx ([CHR 0x0A] @ ''Available commands:'' @ [CHR 0x0A])"

definition show_cheatsheet :: "InterpreterContext \<Rightarrow> InterpreterContext" where
  "show_cheatsheet ctx = printf ctx ([CHR 0x0A] @ ''--- Command Cheatsheet ---'' @ [CHR 0x0A])"

definition show_guided_tutorial :: "InterpreterContext \<Rightarrow> InterpreterContext" where
  "show_guided_tutorial ctx = printf ctx ([CHR 0x0A] @ ''--- Guided Tutorial ---'' @ [CHR 0x0A])"

definition cmd_audio :: "InterpreterContext \<Rightarrow> string list \<Rightarrow> unit result option" where
  "cmd_audio ctx tokens =
     (if strcasecmp_eq (tokens ! 1) ''ON''
      then Some (Normal () (printf (ctx\<lparr>audio_mode := True\<rparr>)
             (''Audio mode enabled. Errors and important messages will be read aloud.''
                @ [CHR 0x0A])))
      else if strcasecmp_eq (tokens ! 1) ''OFF''
      then Some (Normal () (printf (ctx\<lparr>audio_mode := False\<rparr>)
             (''Audio mode disabled.'' @ [CHR 0x0A])))
      else error_here ctx ''Usage: AUDIO ON|OFF'')"

definition cmd_theme :: "InterpreterContext \<Rightarrow> string list \<Rightarrow> unit result option" where
  "cmd_theme ctx tokens =
     (if strcasecmp_eq (tokens ! 1) ''HIGH''
      then Some (Normal () (printf (ctx\<lparr>high_contrast_mode := True\<rparr>)
             (''High contrast mode enabled.'' @ [CHR 0x0A])))
      else if strcasecmp_eq (tokens ! 1) ''NORMAL''
      then Some (Normal () (printf (ctx\<lparr>high_contrast_mode := False\<rparr>)
             (''Normal theme enabled.'' @ [CHR 0x0A])))
      else error_here ctx ''Usage: THEME HIGH|NORMAL'')"

definition cmd_say :: "InterpreterContext \<Rightarrow> string list \<Rightarrow> unit result option" where
  "cmd_say ctx tokens =
     Some (Normal ()
       (ctx\<lparr>outputs := outputs ctx @
          [System (''espeak '' @ [CHR 0x22] @ join_tokens tokens 1 (length tokens)
             @ [CHR 0x22])]\<rparr>))"

text \<open>
  The chain of tests on the upper-case command, in the order of the C code. \<open>me\<close> is the
  running activation of \<^verbatim>\<open>execute_line\<close>.
\<close>

definition dispatch ::
    "nat \<Rightarrow> (InterpreterContext \<Rightarrow> string \<Rightarrow> unit result option) \<Rightarrow> nat \<Rightarrow> InterpreterContext
       \<Rightarrow> string list \<Rightarrow> string \<Rightarrow> unit result option" where
  "dispatch k exec me ctx tokens command =
     (if (command = ''VARIABLE'' \<or> command = ''SET'') \<and> 4 \<le> length tokens
      then cmd_set k ctx tokens
      else if command = ''PRINT'' then cmd_print ctx tokens
      else if command = ''GET'' \<and> 2 \<le> length tokens then cmd_get ctx tokens
      else if command = ''DEBUG'' \<and> 2 \<le> length tokens then cmd_debug ctx tokens
      else if command = ''INPUT'' \<and> 3 \<le> length tokens then cmd_input ctx tokens
      else if command = ''REPEAT'' \<and> 3 \<le> length tokens then cmd_repeat exec ctx tokens
      else if command = ''IF'' then cmd_if k exec ctx tokens
      else if command = ''WHILE'' then cmd_while k exec ctx tokens
      else if command = ''FOR'' then cmd_for k exec ctx tokens
      else if command = ''TRY'' then cmd_try exec me ctx
      else if command = ''IMPORT'' \<and> 2 \<le> length tokens then cmd_import exec ctx tokens
      else if command = ''CONCAT'' \<and> 4 \<le> length tokens then cmd_concat ctx tokens
      else if command = ''CALL'' \<and> 2 \<le> length tokens then cmd_call exec ctx tokens
      else if command = ''RETURN'' \<and> 2 \<le> length tokens then cmd_return k ctx tokens
      else if command = ''STACK'' then cmd_stack ctx
      else if command = ''TRACE'' then cmd_trace ctx
      else if command = ''HELP'' then Some (Normal () (show_help ctx))
      else if command = ''CHEATSHEET'' then Some (Normal () (show_cheatsheet ctx))
      else if command = ''CUSTOM''
      then Some (Normal () (printf ctx
             (''Custom display mode activated. Extra spacing will be added to outputs to aid ''
                @ ''readability.'' @ [CHR 0x0A])))
      else if command = ''GUIDED'' then Some (Normal () (show_guided_tutorial ctx))
      else if command = ''AUDIO'' \<and> 2 \<le> length tokens then cmd_audio ctx tokens
      else if command = ''THEME'' \<and> 2 \<le> length tokens then cmd_theme ctx tokens
      else if command = ''SAY'' \<and> 2 \<le> length tokens then cmd_say ctx tokens
      else if command = ''EXIT''
      then Some (Exit (printf ctx (''Exiting interpreter.'' @ [CHR 0x0A])))
      else error_here ctx ''Unknown command'')"

text \<open>
  Where a \<^verbatim>\<open>longjmp\<close> to \<^verbatim>\<open>error_buf\<close> lands. The activation \<open>me\<close> of
  \<^verbatim>\<open>execute_line\<close> takes the jump when the buffer names it: at the \<^verbatim>\<open>setjmp\<close> of
  its first statement it reports the error and returns; at the \<^verbatim>\<open>setjmp\<close> of TRY it
  runs the CATCH branch (which may be left by a jump again). A jump to any other activation
  passes through.
\<close>

fun landing ::
    "nat \<Rightarrow> (InterpreterContext \<Rightarrow> string \<Rightarrow> unit result option) \<Rightarrow> nat \<Rightarrow> unit result option
       \<Rightarrow> unit result option" where
  "landing n exec me (Some (Fault c)) =
     (if error_buf c = (me, AtLine)
      then Some (Normal ()
             (print_error c ''An error occurred; skipping this command'' (current_line c + 1)))
      else if error_buf c = (me, AtTry)
      then (case n of 0 \<Rightarrow> None | Suc m \<Rightarrow> landing m exec me (try_catch exec c))
      else Some (Fault c))"
| "landing n exec me r = r"

definition execute_line_body ::
    "nat \<Rightarrow> (InterpreterContext \<Rightarrow> string \<Rightarrow> unit result option) \<Rightarrow> InterpreterContext \<Rightarrow> string
       \<Rightarrow> unit result option" where
  "execute_line_body k exec ctx line =
     (let me = activations ctx;
          ctx1 = ctx\<lparr>activations := me + 1, error_buf := (me, AtLine)\<rparr>;
          tokens = tokenize line
      in if tokens = [] then Some (Normal () ctx1)
         else landing k exec me
                (dispatch k exec me
                   (debug_log ctx1 (''Executing command: '' @ map toupper (hd tokens)))
                   tokens (map toupper (hd tokens))))"

primrec execute_line :: "nat \<Rightarrow> InterpreterContext \<Rightarrow> string \<Rightarrow> unit result option" where
  "execute_line 0 ctx line = None"
| "execute_line (Suc k) ctx line = execute_line_body k (execute_line k) ctx line"

subsection \<open>Drivers\<close>

fun execute_code_from ::
    "nat \<Rightarrow> InterpreterContext \<Rightarrow> string list \<Rightarrow> unit result option" where
  "execute_code_from fuel ctx [] = Some (Normal () ctx)"
| "execute_code_from fuel ctx (l # ls) =
     (case execute_line fuel
             (debug_log ctx (''Line '' @ string_of_int (current_line ctx + 1) @ '': '' @ l)) l of
        Some (Normal u c) \<Rightarrow> execute_code_from fuel (c\<lparr>current_line := current_line c + 1\<rparr>) ls
      | other \<Rightarrow> other)"

definition execute_code :: "nat \<Rightarrow> InterpreterContext \<Rightarrow> unit result option" where
  "execute_code fuel ctx = execute_code_from fuel (ctx\<lparr>current_line := 0\<rparr>) (code_lines ctx)"

text \<open>
  \<^verbatim>\<open>repl\<close>: a prompt, a line from standard input (the loop ends with the input), empty
  lines skipped. \<open>n\<close> bounds the number of lines taken.
\<close>

definition prompt :: "InterpreterContext \<Rightarrow> InterpreterContext" where
  "prompt ctx =
     printf ctx (if high_contrast_mode ctx then HC_COLOR_PROMPT @ ''Claro> '' @ HC_COLOR_RESET
                 else COLOR_PROMPT @ ''Claro> '' @ COLOR_RESET)"

fun repl_loop :: "nat \<Rightarrow> nat \<Rightarrow> InterpreterContext \<Rightarrow> unit result option" where
  "repl_loop 0 fuel ctx = None"
| "repl_loop (Suc n) fuel ctx =
     (case stdin (prompt ctx) of
        [] \<Rightarrow> Some (Normal () (prompt ctx))
      | l # ls \<Rightarrow>
          if l = [] then repl_loop n fuel ((prompt ctx)\<lparr>stdin := ls\<rparr>)
          else
            (case execute_line fuel ((prompt ctx)\<lparr>stdin := ls\<rparr>) l of
               Some (Normal u c) \<Rightarrow> repl_loop n fuel c
             | other \<Rightarrow> other))"

definition repl :: "nat \<Rightarrow> InterpreterContext \<Rightarrow> unit result option" where
  "repl fuel ctx =
     repl_loop fuel fuel
       (printf ctx
          (if high_contrast_mode ctx
           then HC_COLOR_PROMPT @ ''Welcome to Extended Claro Interpreter! (High Contrast Mode)''
                  @ [CHR 0x0A] @ ''Type HELP or GUIDED for commands.'' @ [CHR 0x0A]
                  @ HC_COLOR_RESET
           else COLOR_PROMPT @ ''Welcome to Extended Claro Interpreter!'' @ [CHR 0x0A]
                  @ ''Type HELP or GUIDED for commands.'' @ [CHR 0x0A] @ COLOR_RESET))"

text \<open>
  \<^verbatim>\<open>init_context\<close> assigns ten fields of the structure it is given and leaves the others
  as they are, among them \<^verbatim>\<open>function_return_value\<close> and the two jump buffers.
\<close>

definition init_context :: "InterpreterContext \<Rightarrow> InterpreterContext" where
  "init_context ctx =
     ctx\<lparr>code_lines := [], current_line := 0, debug_mode := False,
         high_contrast_mode := False, audio_mode := False, variables := [],
         function_table := [], call_stack := [], in_function := False\<rparr>"

subsection \<open>Contexts for the examples\<close>

text \<open>
  \<open>start_context input\<close> is the context of \<^verbatim>\<open>main\<close> after \<^verbatim>\<open>init_context\<close> and
  its \<^verbatim>\<open>setjmp\<close>, with \<open>input\<close> waiting on standard input. \<^verbatim>\<open>main\<close> is activation
  0. The fields that \<^verbatim>\<open>init_context\<close> does not assign are given the value 0 here.
\<close>

definition start_context :: "string list \<Rightarrow> InterpreterContext" where
  "start_context input =
     (init_context
        \<lparr>code_lines = [], current_line = 0, debug_mode = False, high_contrast_mode = False,
         audio_mode = False, error_buf = (0, AtMain), variables = [], function_table = [],
         call_stack = [], in_function = False, function_return_value = 0,
         function_return_buf = 0, activations = 1, stdin = input, files = [],
         outputs = []\<rparr>)"

text \<open>
  \<^verbatim>\<open>execute_line\<close> has no branch for FUNCTION, so a function is registered by a call of
  \<^verbatim>\<open>define_function\<close> with the tokens of the FUNCTION line; the body is read from
  standard input. Two functions without parameters: \<open>f\<close> returns 5, the body of \<open>g\<close> is
  empty.
\<close>

definition two_functions :: InterpreterContext where
  "two_functions =
     define_function
       (define_function (start_context [''RETURN 5'', ''ENDFUNCTION'', ''ENDFUNCTION''])
          [''FUNCTION'', ''f''])
       [''FUNCTION'', ''g'']"

text \<open>
  \<open>inner\<close> returns 1; \<open>outer\<close> calls \<open>inner\<close>, then returns 7, then would set \<open>z\<close>.
\<close>

definition nested_functions :: InterpreterContext where
  "nested_functions =
     define_function
       (define_function
          (start_context [''RETURN 1'', ''ENDFUNCTION'',
                          ''CALL inner'', ''RETURN 7'', ''SET z = 1'', ''ENDFUNCTION''])
          [''FUNCTION'', ''inner''])
       [''FUNCTION'', ''outer'']"



subsection \<open>How the store may change\<close>

text \<open>
  \<open>grows c c'\<close>: from \<open>c\<close> to \<open>c'\<close> the names of the store were kept in place (new
  ones may follow them), the function registry is the same, and the store and the call
  stack are within their bounds in \<open>c'\<close> if they were in \<open>c\<close>. \<open>result_grows c r\<close> says
  so of the context that a result carries, and \<open>exec_grows exec\<close> of every result of
  \<open>exec\<close>.
\<close>

definition var_names :: "InterpreterContext \<Rightarrow> string list" where
  "var_names c = map v_name (variables c)"

definition grows :: "InterpreterContext \<Rightarrow> InterpreterContext \<Rightarrow> bool" where
  "grows c c' =
     (prefix (var_names c) (var_names c')
      \<and> (length (variables c) \<le> MAX_VARIABLES \<longrightarrow> length (variables c') \<le> MAX_VARIABLES)
      \<and> (length (call_stack c) \<le> MAX_CALL_STACK_DEPTH
           \<longrightarrow> length (call_stack c') \<le> MAX_CALL_STACK_DEPTH)
      \<and> function_table c' = function_table c)"

definition context_of :: "'a result \<Rightarrow> InterpreterContext option" where
  "context_of r =
     (case r of
        Normal v c \<Rightarrow> Some c
      | Fault c \<Rightarrow> Some c
      | Return c \<Rightarrow> Some c
      | Exit c \<Rightarrow> Some c
      | Undefined \<Rightarrow> None)"

definition result_grows :: "InterpreterContext \<Rightarrow> 'a result \<Rightarrow> bool" where
  "result_grows c r = (case context_of r of None \<Rightarrow> True | Some c' \<Rightarrow> grows c c')"

definition exec_grows :: "(InterpreterContext \<Rightarrow> string \<Rightarrow> unit result option) \<Rightarrow> bool" where
  "exec_grows exec = (\<forall>c l r. exec c l = Some r \<longrightarrow> result_grows c r)"

text \<open>
  The context in which the body of a call starts: the parameters are bound, the name is
  pushed if the call stack has room, the flag is set and \<^verbatim>\<open>setjmp\<close> has filled
  \<^verbatim>\<open>function_return_buf\<close>.
\<close>

definition call_entry :: "InterpreterContext \<Rightarrow> FunctionDef \<Rightarrow> string list \<Rightarrow> InterpreterContext" where
  "call_entry ctx f args =
     (let ctx1 = bind_params ctx (f_params f) args;
          ctx2 = (if length (call_stack ctx1) < MAX_CALL_STACK_DEPTH
                  then ctx1\<lparr>call_stack := call_stack ctx1 @ [f_name f]\<rparr> else ctx1)
      in ctx2\<lparr>in_function := True, activations := activations ctx2 + 1,
              function_return_buf := activations ctx2\<rparr>)"


definition full_store :: InterpreterContext where
  "full_store =
     (start_context [])\<lparr>variables :=
        replicate 100 \<lparr>v_name = ''a'', v_type = TYPE_FLOAT, v_value = ''0''\<rparr>\<rparr>"

definition full_registry :: InterpreterContext where
  "full_registry =
     (start_context [])\<lparr>function_table :=
        replicate 100 \<lparr>f_name = ''g'', f_params = [], f_code_lines = []\<rparr>\<rparr>"

definition full_stack :: InterpreterContext where
  "full_stack = (start_context [])\<lparr>call_stack := replicate 100 ''g''\<rparr>"

definition full_store_after :: InterpreterContext where
  "full_store_after =
     (case execute_line 10 full_store ''SET b = 1'' of
        Some (Normal u c) \<Rightarrow> c
      | _ \<Rightarrow> full_store)"









text \<open>
  \<open>early\<close> returns 7 from a REPEAT inside an IF; its second line would set \<open>z\<close>.
\<close>

definition early_return :: InterpreterContext where
  "early_return =
     define_function
       (start_context [''IF 1 THEN REPEAT 2 RETURN 7 ENDIF'', ''SET z = 1'', ''ENDFUNCTION''])
       [''FUNCTION'', ''early'']"

text \<open>The report of the boundary of a line, for the first line.\<close>

definition skipped_report :: event where
  "skipped_report =
     Stderr (COLOR_ERROR @ ''Oops! Error (line 1): An error occurred; skipping this command''
               @ [CHR 0x0A] @ COLOR_RESET)"


section \<open>Properties\<close>

subsection \<open>What printing and assigning leave alone\<close>

lemma printf_fields [simp]:
  "variables (printf c s) = variables c"
  "call_stack (printf c s) = call_stack c"
  "function_table (printf c s) = function_table c"
  "in_function (printf c s) = in_function c"
  "function_return_value (printf c s) = function_return_value c"
  "function_return_buf (printf c s) = function_return_buf c"
  "activations (printf c s) = activations c"
  "error_buf (printf c s) = error_buf c"
  "stdin (printf c s) = stdin c"
  "files (printf c s) = files c"
  "current_line (printf c s) = current_line c"
  "debug_mode (printf c s) = debug_mode c"
  "high_contrast_mode (printf c s) = high_contrast_mode c"
  "audio_mode (printf c s) = audio_mode c"
  "code_lines (printf c s) = code_lines c"
  "outputs (printf c s) = outputs c @ [Stdout s]"
  by (simp_all add: printf_def)

lemma print_error_fields [simp]:
  "variables (print_error c m n) = variables c"
  "call_stack (print_error c m n) = call_stack c"
  "function_table (print_error c m n) = function_table c"
  "in_function (print_error c m n) = in_function c"
  "function_return_value (print_error c m n) = function_return_value c"
  "function_return_buf (print_error c m n) = function_return_buf c"
  "activations (print_error c m n) = activations c"
  "error_buf (print_error c m n) = error_buf c"
  "stdin (print_error c m n) = stdin c"
  "files (print_error c m n) = files c"
  "current_line (print_error c m n) = current_line c"
  "debug_mode (print_error c m n) = debug_mode c"
  "high_contrast_mode (print_error c m n) = high_contrast_mode c"
  "audio_mode (print_error c m n) = audio_mode c"
  "code_lines (print_error c m n) = code_lines c"
  by (simp_all add: print_error_def Let_def)

lemma debug_log_fields [simp]:
  "variables (debug_log c m) = variables c"
  "call_stack (debug_log c m) = call_stack c"
  "function_table (debug_log c m) = function_table c"
  "in_function (debug_log c m) = in_function c"
  "function_return_value (debug_log c m) = function_return_value c"
  "function_return_buf (debug_log c m) = function_return_buf c"
  "activations (debug_log c m) = activations c"
  "error_buf (debug_log c m) = error_buf c"
  "stdin (debug_log c m) = stdin c"
  "files (debug_log c m) = files c"
  "current_line (debug_log c m) = current_line c"
  "debug_mode (debug_log c m) = debug_mode c"
  "high_contrast_mode (debug_log c m) = high_contrast_mode c"
  "audio_mode (debug_log c m) = audio_mode c"
  "code_lines (debug_log c m) = code_lines c"
  by (simp_all add: debug_log_def)

lemma set_variable_fields [simp]:
  "call_stack (set_variable c nm v t) = call_stack c"
  "function_table (set_variable c nm v t) = function_table c"
  "in_function (set_variable c nm v t) = in_function c"
  "function_return_value (set_variable c nm v t) = function_return_value c"
  "function_return_buf (set_variable c nm v t) = function_return_buf c"
  "activations (set_variable c nm v t) = activations c"
  "error_buf (set_variable c nm v t) = error_buf c"
  "stdin (set_variable c nm v t) = stdin c"
  "files (set_variable c nm v t) = files c"
  "current_line (set_variable c nm v t) = current_line c"
  "debug_mode (set_variable c nm v t) = debug_mode c"
  "high_contrast_mode (set_variable c nm v t) = high_contrast_mode c"
  "audio_mode (set_variable c nm v t) = audio_mode c"
  "code_lines (set_variable c nm v t) = code_lines c"
  by (simp_all add: set_variable_def)

subsection \<open>Expression evaluation\<close>
































text \<open>
  C8, at the name \<open>true_x\<close>. The test for the literal \<open>true\<close> looks at the character
  after it with \<^verbatim>\<open>isalnum\<close>, which the underscore does not satisfy, while the scan of a
  variable name takes the underscore. So \<open>true_x\<close> is read as the literal followed by
  \<open>_x\<close>: in every context, with or without a variable of that name, its value is 1.
  GET of a name that is not in the store prints its own report and raises nothing.
\<close>

theorem identifier_true_underscore_is_one:
  "evaluate_expression 10 ''true_x'' ctx = Some (Value 1)
   \<and> get_variable (start_context []) ''true_x'' = None
   \<and> (case execute_line 10 (start_context []) ''GET true_x'' of
         Some (Normal u c) \<Rightarrow>
           outputs c = [Stdout (''Variable '' @ quoted ''true_x'' @ '' is not defined.''
                          @ [CHR 0x0A])]
       | _ \<Rightarrow> False)"
  by code_simp

subsection \<open>Faults\<close>

text \<open>
  C7, at a WHILE whose condition divides by zero on its second test. The input is
  \<open>SET x = 0\<close>, \<open>WHILE 1/(1-x) BEGIN\<close>, \<open>SET x = 1\<close>, \<open>ENDWHILE\<close>, \<open>PRINT after\<close>.
  The activations of \<^verbatim>\<open>execute_line\<close> are 1 (SET), 2 (WHILE) and 3 (the body line).
  The second test of the condition jumps to \<^verbatim>\<open>error_buf\<close>, which the body line filled
  and which nobody has filled since: the jump is to activation 3, which has returned. No
  activation takes it, and the line after the loop is still on standard input.
  For comparison, the lines \<open>SET x = 5/0\<close> and \<open>SET y = (1+2\<close> at the prompt: each fault
  is reported by the boundary of its line, nothing is assigned, and \<open>PRINT after\<close> runs.
\<close>

theorem while_retest_jumps_to_dead_activation:
  "(case repl 10 (start_context [''SET x = 0'', ''WHILE 1/(1-x) BEGIN'', ''SET x = 1'',
                                 ''ENDWHILE'', ''PRINT after'']) of
      Some (Fault c) \<Rightarrow>
        error_buf c = (3, AtLine) \<and> activations c = 4 \<and> stdin c = [''PRINT after'']
    | _ \<Rightarrow> False)
   \<and> (case repl 10 (start_context [''SET x = 5/0'', ''SET y = (1+2'', ''PRINT after'']) of
        Some (Normal u c) \<Rightarrow>
          variables c = [] \<and> stdin c = []
          \<and> filter (\<lambda>e. e = skipped_report) (outputs c) = [skipped_report, skipped_report]
          \<and> Stdout ''after '' \<in> set (outputs c)
      | _ \<Rightarrow> False)"
  by code_simp

text \<open>
  C3, at a TRY block whose only line divides by zero. The input after the TRY line is
  \<open>SET x = 5/0\<close>, \<open>CATCH\<close>, \<open>SET y = 1\<close>, \<open>ENDTRY\<close>. The \<^verbatim>\<open>setjmp\<close> of the block's
  line replaces the one of TRY in \<^verbatim>\<open>error_buf\<close>, so the fault is reported as that of a
  skipped command, TRY reports success, and the CATCH lines are read but not executed:
  \<open>y\<close> is not set.
\<close>

theorem try_fault_does_not_run_catch:
  "(case execute_line 10 (start_context [''SET x = 5/0'', ''CATCH'', ''SET y = 1'', ''ENDTRY''])
           ''TRY'' of
      Some (Normal u c) \<Rightarrow>
        get_variable c ''y'' = None \<and> stdin c = []
        \<and> skipped_report \<in> set (outputs c)
        \<and> Stdout (''TRY block executed successfully; skipping CATCH.'' @ [CHR 0x0A])
             \<in> set (outputs c)
        \<and> Stdout (''Error in TRY block; executing CATCH block.'' @ [CHR 0x0A])
             \<notin> set (outputs c)
    | _ \<Rightarrow> False)"
  by code_simp

subsection \<open>Function calls\<close>

text \<open>
  C4, at a call of \<open>g\<close>, whose body is empty, after a call of \<open>f\<close>, which returns 5.
  \<^verbatim>\<open>execute_function\<close> returns \<^verbatim>\<open>function_return_value\<close> as the last RETURN left it:
  the call of \<open>g\<close> returns 5.
\<close>

theorem fall_through_returns_previous_value:
  "(case execute_block (execute_line 10) (two_functions\<lparr>outputs := []\<rparr>)
           [''CALL f'', ''CALL g''] of
      Some (Normal u c) \<Rightarrow>
        outputs c = [Stdout (''Function '' @ quoted ''f'' @ '' returned 5'' @ [CHR 0x0A]),
                     Stdout (''Function '' @ quoted ''g'' @ '' returned 5'' @ [CHR 0x0A])]
    | _ \<Rightarrow> False)"
  by code_simp

text \<open>
  C2, at a RETURN that follows a nested call. \<open>outer\<close> calls \<open>inner\<close> and then executes
  \<open>RETURN 7\<close>: the RETURN is reported as used outside a function, the next body line runs
  (it sets \<open>z\<close>, which the end of the call removes again), and \<open>outer\<close> returns 1, the
  value that \<open>inner\<close> returned. For comparison: without a nested call before it, a RETURN
  inside REPEAT inside IF ends the call of \<open>early\<close> with the value 7 and the next body
  line does not run; and a RETURN at the prompt is reported as an error.
\<close>

theorem return_after_nested_call_is_rejected:
  "(case execute_line 10 (nested_functions\<lparr>outputs := []\<rparr>) ''CALL outer'' of
      Some (Normal u c) \<Rightarrow>
        outputs c =
          [Stdout (''Function '' @ quoted ''inner'' @ '' returned 1'' @ [CHR 0x0A]),
           Stderr (COLOR_ERROR @ ''Oops! Error (line 1): RETURN can only be used inside a function''
                     @ [CHR 0x0A] @ COLOR_RESET),
           Stdout (set_message ''z'' ''1''),
           Stdout (''Function '' @ quoted ''outer'' @ '' returned 1'' @ [CHR 0x0A])]
    | _ \<Rightarrow> False)
   \<and> (case execute_line 10 (early_return\<lparr>outputs := []\<rparr>) ''CALL early'' of
        Some (Normal u c) \<Rightarrow>
          outputs c = [Stdout (''Function '' @ quoted ''early'' @ '' returned 7'' @ [CHR 0x0A])]
      | _ \<Rightarrow> False)
   \<and> (case execute_line 10 (start_context []) ''RETURN 7'' of
        Some (Normal u c) \<Rightarrow>
          outputs c =
            [Stderr (COLOR_ERROR
                       @ ''Oops! Error (line 1): RETURN can only be used inside a function''
                       @ [CHR 0x0A] @ COLOR_RESET)]
      | _ \<Rightarrow> False)"
  by code_simp





subsection \<open>The store grows, the registry stays, the bounds hold\<close>

lemma read_block_fields [simp]:
  "variables (snd (read_block p e c)) = variables c"
  "call_stack (snd (read_block p e c)) = call_stack c"
  "function_table (snd (read_block p e c)) = function_table c"
  "in_function (snd (read_block p e c)) = in_function c"
  "function_return_value (snd (read_block p e c)) = function_return_value c"
  "activations (snd (read_block p e c)) = activations c"
  "error_buf (snd (read_block p e c)) = error_buf c"
  "current_line (snd (read_block p e c)) = current_line c"
  by (simp_all add: read_block_def split: prod.splits)

lemma result_grows_simps [simp]:
  "result_grows c0 (Normal v c) = grows c0 c"
  "result_grows c0 (Fault c) = grows c0 c"
  "result_grows c0 (Return c) = grows c0 c"
  "result_grows c0 (Exit c) = grows c0 c"
  "result_grows c0 Undefined"
  by (simp_all add: result_grows_def context_of_def)

lemma grows_refl [simp]: "grows c c"
  by (simp add: grows_def)

lemma grows_trans: "grows a b \<Longrightarrow> grows b c \<Longrightarrow> grows a c"
  by (auto simp: grows_def)

lemma grows_prims [simp]:
  "grows c0 (printf c s) = grows c0 c"
  "grows c0 (print_error c m n) = grows c0 c"
  "grows c0 (debug_log c m) = grows c0 c"
  "grows c0 (snd (read_block p e c)) = grows c0 c"
  by (simp_all add: grows_def var_names_def)

lemma grows_updates [simp]:
  "grows c0 (c\<lparr>activations := a\<rparr>) = grows c0 c"
  "grows c0 (c\<lparr>error_buf := b\<rparr>) = grows c0 c"
  "grows c0 (c\<lparr>in_function := i\<rparr>) = grows c0 c"
  "grows c0 (c\<lparr>function_return_value := v\<rparr>) = grows c0 c"
  "grows c0 (c\<lparr>function_return_buf := fb\<rparr>) = grows c0 c"
  "grows c0 (c\<lparr>stdin := si\<rparr>) = grows c0 c"
  "grows c0 (c\<lparr>outputs := ou\<rparr>) = grows c0 c"
  "grows c0 (c\<lparr>current_line := cl\<rparr>) = grows c0 c"
  "grows c0 (c\<lparr>debug_mode := dm\<rparr>) = grows c0 c"
  "grows c0 (c\<lparr>high_contrast_mode := hm\<rparr>) = grows c0 c"
  "grows c0 (c\<lparr>audio_mode := am\<rparr>) = grows c0 c"
  by (simp_all add: grows_def var_names_def)

lemma grows_left_prims [simp]:
  "grows (printf c s) c1 = grows c c1"
  "grows (print_error c m n) c1 = grows c c1"
  "grows (debug_log c m) c1 = grows c c1"
  "grows (c\<lparr>activations := a\<rparr>) c1 = grows c c1"
  "grows (c\<lparr>error_buf := b\<rparr>) c1 = grows c c1"
  "grows (c\<lparr>stdin := si\<rparr>) c1 = grows c c1"
  by (simp_all add: grows_def var_names_def)

lemma names_update_first [simp]: "map v_name (update_first nm v t xs) = map v_name xs"
  by (induction xs) auto

lemma length_update_first [simp]: "length (update_first nm v t xs) = length xs"
  by (induction xs) auto

lemma grows_set_variable [simp]: "grows c0 c \<Longrightarrow> grows c0 (set_variable c nm v t)"
  by (auto simp: grows_def var_names_def set_variable_def)

lemma grows_foldl_printf [simp]:
  "grows c0 (foldl (\<lambda>c x. printf c (g x)) c xs) = grows c0 c"
  by (induction xs arbitrary: c) auto

lemma grows_print_tokens [simp]: "grows c0 (print_tokens c ts) = grows c0 c"
  by (induction ts arbitrary: c) auto

lemma grows_trace_params [simp]: "grows c0 (trace_params c ps) = grows c0 c"
  by (induction c ps rule: trace_params.induct) auto

lemma grows_bind_params [simp]: "grows c0 c \<Longrightarrow> grows c0 (bind_params c ps as)"
  by (induction c ps as rule: bind_params.induct) auto

lemma grows_step: "grows c0 c \<Longrightarrow> result_grows c r \<Longrightarrow> result_grows c0 r"
  by (cases r) (simp_all add: grows_trans [of c0 c])

lemma exec_growsD: "exec_grows exec \<Longrightarrow> exec c l = Some r \<Longrightarrow> result_grows c r"
  by (simp add: exec_grows_def)

lemma execute_block_grows:
  "exec_grows exec \<Longrightarrow> grows c0 c \<Longrightarrow> execute_block exec c ls = Some r \<Longrightarrow> result_grows c0 r"
proof (induction ls arbitrary: c)
  case Nil
  then show ?case by auto
next
  case (Cons l ls)
  from Cons.prems(3) obtain r1 where r1: "exec c l = Some r1"
    by (auto split: option.splits)
  have g1: "result_grows c0 r1"
    using grows_step [OF Cons.prems(2) exec_growsD [OF Cons.prems(1) r1]] .
  show ?case
  proof (cases r1)
    case (Normal u c1)
    with g1 have "grows c0 c1" by simp
    from Cons.IH [OF Cons.prems(1) this] Cons.prems(3) r1 Normal show ?thesis by simp
  next
    case (Fault c1)
    with Cons.prems(3) r1 g1 show ?thesis by simp
  next
    case (Return c1)
    with Cons.prems(3) r1 g1 show ?thesis by simp
  next
    case (Exit c1)
    with Cons.prems(3) r1 g1 show ?thesis by simp
  next
    case Undefined
    with Cons.prems(3) r1 show ?thesis by simp
  qed
qed

lemma grows_via: "grows c0 c \<Longrightarrow> exec_grows exec \<Longrightarrow> exec c l = Some r \<Longrightarrow> result_grows c0 r"
  using grows_step exec_growsD by blast

lemma evaluate_expression_Raised:
  "evaluate_expression k e c = Some (Raised c') \<Longrightarrow> \<exists>m. c' = print_error c m (- 1)"
  by (auto simp: evaluate_expression_def split: option.splits pres.splits)

lemma function_body_grows:
  "exec_grows exec \<Longrightarrow> grows c0 c \<Longrightarrow> function_body exec c fn ls = Some r \<Longrightarrow> result_grows c0 r"
proof (induction ls arbitrary: c)
  case Nil
  then show ?case by auto
next
  case (Cons l ls)
  let ?c = "debug_log c (''Function '' @ [CHR 0x27] @ fn @ [CHR 0x27] @ '' executing: '' @ l)"
  from Cons.prems(3) obtain r1 where r1: "exec ?c l = Some r1"
    by (auto split: option.splits)
  have "grows c0 ?c" using Cons.prems(2) by simp
  then have g1: "result_grows c0 r1"
    using Cons.prems(1) r1 by (rule grows_via)
  show ?case
  proof (cases r1)
    case (Normal u c1)
    with g1 have "grows c0 c1" by simp
    from Cons.IH [OF Cons.prems(1) this] Cons.prems(3) r1 Normal show ?thesis by simp
  qed (use Cons.prems(3) r1 g1 in auto)
qed

lemma repeat_loop_grows:
  "exec_grows exec \<Longrightarrow> grows c0 c \<Longrightarrow> repeat_loop exec n i c cmd = Some r \<Longrightarrow> result_grows c0 r"
proof (induction n arbitrary: c i)
  case 0
  then show ?case by auto
next
  case (Suc n)
  let ?c = "debug_log c (''REPEAT iteration '' @ string_of_int (i + 1) @ '': '' @ cmd)"
  from Suc.prems(3) obtain r1 where r1: "exec ?c cmd = Some r1"
    by (auto split: option.splits)
  have "grows c0 ?c" using Suc.prems(2) by simp
  then have g1: "result_grows c0 r1"
    using Suc.prems(1) r1 by (rule grows_via)
  show ?case
  proof (cases r1)
    case (Normal u c1)
    with g1 have "grows c0 c1" by simp
    from Suc.IH [OF Suc.prems(1) this] Suc.prems(3) r1 Normal show ?thesis by simp
  qed (use Suc.prems(3) r1 g1 in auto)
qed

lemma while_loop_grows:
  "exec_grows exec \<Longrightarrow> grows c0 c \<Longrightarrow> while_loop n k exec c cond blk = Some r
     \<Longrightarrow> result_grows c0 r"
proof (induction n arbitrary: c)
  case 0
  then show ?case by simp
next
  case (Suc n)
  from Suc.prems(3) obtain ev where ev: "evaluate_expression k cond c = Some ev"
    by (auto split: option.splits)
  show ?case
  proof (cases ev)
    case (Raised c')
    with ev evaluate_expression_Raised obtain m where "c' = print_error c m (- 1)" by blast
    with Suc.prems ev Raised show ?thesis by auto
  next
    case (Value v)
    show ?thesis
    proof (cases "v = 0")
      case True
      with Suc.prems ev Value show ?thesis by auto
    next
      case False
      with Suc.prems(3) ev Value obtain r1 where r1: "execute_block exec c blk = Some r1"
        by (auto split: option.splits)
      have g1: "result_grows c0 r1"
        using execute_block_grows [OF Suc.prems(1,2) r1] .
      show ?thesis
      proof (cases r1)
        case (Normal u c1)
        with g1 have "grows c0 c1" by simp
        from Suc.IH [OF Suc.prems(1) this] Suc.prems(3) ev Value False r1 Normal
        show ?thesis by simp
      qed (use Suc.prems(3) ev Value False r1 g1 in auto)
    qed
  qed
qed

lemma for_loop_grows:
  "exec_grows exec \<Longrightarrow> grows c0 c \<Longrightarrow> for_loop n exec c var e s blk = Some r
     \<Longrightarrow> result_grows c0 r"
proof (induction n arbitrary: c)
  case 0
  then show ?case by simp
next
  case (Suc n)
  show ?case
  proof (cases "get_variable c var")
    case None
    with Suc.prems show ?thesis by auto
  next
    case (Some cur)
    show ?thesis
    proof (cases "if 0 < s then atof cur \<le> e else e \<le> atof cur")
      case False
      with Suc.prems Some show ?thesis by (auto split: if_splits)
    next
      case True
      with Suc.prems(3) Some obtain r1 where r1: "execute_block exec c blk = Some r1"
        by (auto split: option.splits if_splits)
      have g1: "result_grows c0 r1"
        using execute_block_grows [OF Suc.prems(1,2) r1] .
      show ?thesis
      proof (cases r1)
        case (Normal u c1)
        with g1 have "grows c0 (set_variable c1 var (fmt_g (atof cur + s)) TYPE_FLOAT)" by simp
        from Suc.IH [OF Suc.prems(1) this] Suc.prems(3) Some True r1 Normal
        show ?thesis by (simp split: if_splits)
      qed (use Suc.prems(3) Some True r1 g1 in \<open>auto split: if_splits\<close>)
    qed
  qed
qed

lemma error_here_grows: "grows c0 c \<Longrightarrow> error_here c m = Some r \<Longrightarrow> result_grows c0 r"
  by (auto simp: error_here_def)

lemma cmd_set_grows: "grows c0 c \<Longrightarrow> cmd_set k c tokens = Some r \<Longrightarrow> result_grows c0 r"
  by (auto simp: cmd_set_def error_here_def split: if_splits option.splits eval_result.splits
           dest!: evaluate_expression_Raised)

lemma cmd_simple_grows:
  "grows c0 c \<Longrightarrow> cmd_print c tokens = Some r \<Longrightarrow> result_grows c0 r"
  "grows c0 c \<Longrightarrow> cmd_get c tokens = Some r \<Longrightarrow> result_grows c0 r"
  "grows c0 c \<Longrightarrow> cmd_debug c tokens = Some r \<Longrightarrow> result_grows c0 r"
  "grows c0 c \<Longrightarrow> cmd_input c tokens = Some r \<Longrightarrow> result_grows c0 r"
  "grows c0 c \<Longrightarrow> cmd_concat c tokens = Some r \<Longrightarrow> result_grows c0 r"
  "grows c0 c \<Longrightarrow> cmd_stack c = Some r \<Longrightarrow> result_grows c0 r"
  "grows c0 c \<Longrightarrow> cmd_audio c tokens = Some r \<Longrightarrow> result_grows c0 r"
  "grows c0 c \<Longrightarrow> cmd_theme c tokens = Some r \<Longrightarrow> result_grows c0 r"
  "grows c0 c \<Longrightarrow> cmd_say c tokens = Some r \<Longrightarrow> result_grows c0 r"
  by (auto simp: cmd_print_def cmd_get_def cmd_debug_def cmd_input_def cmd_concat_def
                 cmd_stack_def cmd_audio_def cmd_theme_def cmd_say_def error_here_def Let_def
           split: if_splits option.splits list.splits)

lemma grows_foldl_trace [simp]:
  "grows c0 (foldl (\<lambda>c f. printf (trace_params (printf c (g f)) (h f)) (j f)) c fs) = grows c0 c"
  by (induction fs arbitrary: c) auto

lemma cmd_trace_grows: "grows c0 c \<Longrightarrow> cmd_trace c = Some r \<Longrightarrow> result_grows c0 r"
  by (auto simp: cmd_trace_def Let_def)

lemma cmd_repeat_grows:
  "exec_grows exec \<Longrightarrow> grows c0 c \<Longrightarrow> cmd_repeat exec c tokens = Some r \<Longrightarrow> result_grows c0 r"
  by (auto simp: cmd_repeat_def error_here_def split: if_splits dest: repeat_loop_grows)

lemma cmd_if_grows:
  "exec_grows exec \<Longrightarrow> grows c0 c \<Longrightarrow> cmd_if k exec c tokens = Some r \<Longrightarrow> result_grows c0 r"
  by (auto simp: cmd_if_def error_here_def
           split: if_splits option.splits prod.splits eval_result.splits
           dest!: evaluate_expression_Raised dest: grows_via)

lemma cmd_while_grows:
  "exec_grows exec \<Longrightarrow> grows c0 c \<Longrightarrow> cmd_while k exec c tokens = Some r \<Longrightarrow> result_grows c0 r"
proof -
  assume a: "exec_grows exec" "grows c0 c" "cmd_while k exec c tokens = Some r"
  have g: "grows c0 (snd (read_block p e (printf c s)))" for p e s
    using a(2) by simp
  show ?thesis
    using a(3) while_loop_grows [OF a(1) g]
    by (auto simp: cmd_while_def error_here_def Let_def a(2) split: if_splits prod.splits)
      (metis snd_conv)
qed

lemma read_block_snd: "read_block p e c = (blk, c1) \<Longrightarrow> c1 = snd (read_block p e c)"
  by simp

lemma for_body_grows:
  "exec_grows exec \<Longrightarrow> grows c0 c \<Longrightarrow> for_body k exec c tokens sv ev st idx = Some r
     \<Longrightarrow> result_grows c0 r"
proof -
  assume a: "exec_grows exec" "grows c0 c" "for_body k exec c tokens sv ev st idx = Some r"
  have g: "grows c0 (set_variable (snd (read_block p e (printf c s))) nm v ty)" for p e s nm v ty
    using a(2) by simp
  show ?thesis
    using a(3) for_loop_grows [OF a(1) g]
    by (auto simp: for_body_def error_here_def a(2) split: if_splits prod.splits
             dest!: read_block_snd)
qed

lemma cmd_for_grows:
  "exec_grows exec \<Longrightarrow> grows c0 c \<Longrightarrow> cmd_for k exec c tokens = Some r \<Longrightarrow> result_grows c0 r"
  by (auto simp: cmd_for_def error_here_def
           split: if_splits option.splits eval_result.splits
           dest!: evaluate_expression_Raised dest: for_body_grows)

lemma cmd_try_grows:
  "exec_grows exec \<Longrightarrow> grows c0 c \<Longrightarrow> cmd_try exec me c = Some r \<Longrightarrow> result_grows c0 r"
proof -
  assume a: "exec_grows exec" "grows c0 c" "cmd_try exec me c = Some r"
  obtain blk c1 where rb: "read_block ''TRY> '' (\<lambda>t. strcasecmp_eq t ''CATCH'')
             (printf c (''Enter TRY block lines (type CATCH on a line by itself):''
                @ [CHR 0x0A])) = (blk, c1)"
    by (cases "read_block ''TRY> '' (\<lambda>t. strcasecmp_eq t ''CATCH'')
             (printf c (''Enter TRY block lines (type CATCH on a line by itself):''
                @ [CHR 0x0A]))") auto
  have g1: "grows c0 (c1\<lparr>error_buf := (me, AtTry)\<rparr>)"
    using a(2) read_block_snd [OF rb] by simp
  show ?thesis
  proof (cases "MAX_BLOCK_LINES < length blk")
    case True
    with a(3) rb show ?thesis by (simp add: cmd_try_def)
  next
    case False
    with a(3) rb obtain r1 where r1: "execute_block exec (c1\<lparr>error_buf := (me, AtTry)\<rparr>) blk = Some r1"
      by (auto simp: cmd_try_def split: option.splits)
    have gr: "result_grows c0 r1"
      using execute_block_grows [OF a(1) g1 r1] .
    show ?thesis
    proof (cases r1)
      case (Normal u c2)
      with gr a(3) rb False r1 show ?thesis by (auto simp: cmd_try_def)
    qed (use gr a(3) rb False r1 in \<open>auto simp: cmd_try_def\<close>)
  qed
qed

lemma try_catch_grows:
  "exec_grows exec \<Longrightarrow> grows c0 c \<Longrightarrow> try_catch exec c = Some r \<Longrightarrow> result_grows c0 r"
proof -
  assume a: "exec_grows exec" "grows c0 c" "try_catch exec c = Some r"
  have g: "grows c0 (snd (read_block p e (printf c s)))" for p e s
    using a(2) by simp
  show ?thesis
    using a(3) execute_block_grows [OF a(1) g]
    by (auto simp: try_catch_def split: if_splits prod.splits dest!: read_block_snd)
qed

lemma cmd_import_grows:
  "exec_grows exec \<Longrightarrow> grows c0 c \<Longrightarrow> cmd_import exec c tokens = Some r \<Longrightarrow> result_grows c0 r"
  by (auto simp: cmd_import_def error_here_def split: option.splits dest: execute_block_grows)

lemma cmd_return_grows: "grows c0 c \<Longrightarrow> cmd_return k c tokens = Some r \<Longrightarrow> result_grows c0 r"
  by (auto simp: cmd_return_def error_here_def split: if_splits option.splits eval_result.splits
           dest!: evaluate_expression_Raised)

text \<open>The end of a call cuts the store back to the names it had at the start.\<close>

lemma var_names_epilogue:
  assumes "grows c c1"
  shows "var_names (c1\<lparr>variables := take (length (variables c)) (variables c1),
                       in_function := False, call_stack := butlast (call_stack c1)\<rparr>)
         = var_names c"
proof -
  from assms have "prefix (var_names c) (var_names c1)"
    by (simp add: grows_def)
  then have "take (length (var_names c)) (var_names c1) = var_names c"
    by (auto simp: prefix_def)
  then show ?thesis
    by (simp add: var_names_def take_map)
qed

lemma grows_epilogue:
  assumes "grows c c1"
  shows "grows c (c1\<lparr>variables := take (length (variables c)) (variables c1),
                      in_function := False, call_stack := butlast (call_stack c1)\<rparr>)"
proof -
  have "var_names (c1\<lparr>variables := take (length (variables c)) (variables c1),
                       in_function := False, call_stack := butlast (call_stack c1)\<rparr>)
         = var_names c"
    using assms by (rule var_names_epilogue)
  moreover have "function_table c1 = function_table c"
      "length (call_stack c) \<le> MAX_CALL_STACK_DEPTH \<longrightarrow> length (call_stack c1) \<le> MAX_CALL_STACK_DEPTH"
    using assms by (simp_all add: grows_def)
  ultimately show ?thesis
    by (auto simp: grows_def)
qed

lemma grows_push:
  "grows c0 c \<Longrightarrow> length (call_stack c) < MAX_CALL_STACK_DEPTH
     \<Longrightarrow> grows c0 (c\<lparr>call_stack := call_stack c @ [nm]\<rparr>)"
  by (simp add: grows_def var_names_def)

lemma grows_call_entry: "grows c (call_entry c f args)"
  by (simp add: call_entry_def Let_def grows_push)

lemma execute_function_unfold:
  "length args = length (f_params f) \<Longrightarrow>
   execute_function exec ctx f args =
     (case function_body exec (call_entry ctx f args) (f_name f) (f_code_lines f) of
        None \<Rightarrow> None
      | Some (Normal u c) \<Rightarrow> Some (function_epilogue (length (variables ctx)) c)
      | Some (Return c) \<Rightarrow>
          if function_return_buf c = function_return_buf (call_entry ctx f args)
          then Some (function_epilogue (length (variables ctx)) c)
          else Some (Return c)
      | Some (Fault c) \<Rightarrow> Some (Fault c)
      | Some (Exit c) \<Rightarrow> Some (Exit c)
      | Some Undefined \<Rightarrow> Some Undefined)"
  by (auto simp: execute_function_def call_entry_def Let_def split: option.splits result.splits)

lemma execute_function_names:
  assumes "exec_grows exec" and "execute_function exec c f args = Some (Normal v c')"
  shows "var_names c' = var_names c \<and> grows c c'"
proof (cases "length args = length (f_params f)")
  case False
  with assms(2) show ?thesis
    by (auto simp: execute_function_def var_names_def)
next
  case True
  let ?e = "call_entry c f args"
  from assms(2) True obtain rb where rb: "function_body exec ?e (f_name f) (f_code_lines f) = Some rb"
    by (auto simp: execute_function_unfold split: option.splits)
  have g: "result_grows c rb"
    using function_body_grows [OF assms(1) grows_call_entry rb] .
  from assms(2) True rb obtain c1 where c1: "context_of rb = Some c1"
      "c' = c1\<lparr>variables := take (length (variables c)) (variables c1),
                in_function := False, call_stack := butlast (call_stack c1)\<rparr>"
    by (auto simp: execute_function_unfold function_epilogue_def context_of_def
             split: result.splits if_splits)
  from g c1(1) have "grows c c1"
    by (simp add: result_grows_def)
  then show ?thesis
    using var_names_epilogue grows_epilogue c1(2) by simp
qed

lemma execute_function_grows:
  assumes "exec_grows exec" and "grows c0 c" and "execute_function exec c f args = Some r"
  shows "result_grows c0 r"
proof (cases r)
  case (Normal v c')
  with assms(1,3) have "grows c c'"
    using execute_function_names by blast
  with assms(2) Normal show ?thesis
    by (simp add: grows_trans [of c0 c])
next
  case Undefined
  then show ?thesis by simp
next
  case (Fault c')
  show ?thesis
  proof (cases "length args = length (f_params f)")
    case False
    with assms(3) Fault show ?thesis by (simp add: execute_function_def)
  next
    case True
    with assms(3) Fault have "function_body exec (call_entry c f args) (f_name f) (f_code_lines f)
        = Some (Fault c')"
      by (auto simp: execute_function_unfold function_epilogue_def
               split: option.splits result.splits if_splits)
    from function_body_grows [OF assms(1) grows_call_entry this] assms(2) Fault
    show ?thesis by (simp add: grows_trans [of c0 c])
  qed
next
  case (Return c')
  show ?thesis
  proof (cases "length args = length (f_params f)")
    case False
    with assms(3) Return show ?thesis by (simp add: execute_function_def)
  next
    case True
    with assms(3) Return have "function_body exec (call_entry c f args) (f_name f) (f_code_lines f)
        = Some (Return c')"
      by (auto simp: execute_function_unfold function_epilogue_def
               split: option.splits result.splits if_splits)
    from function_body_grows [OF assms(1) grows_call_entry this] assms(2) Return
    show ?thesis by (simp add: grows_trans [of c0 c])
  qed
next
  case (Exit c')
  show ?thesis
  proof (cases "length args = length (f_params f)")
    case False
    with assms(3) Exit show ?thesis by (simp add: execute_function_def)
  next
    case True
    with assms(3) Exit have "function_body exec (call_entry c f args) (f_name f) (f_code_lines f)
        = Some (Exit c')"
      by (auto simp: execute_function_unfold function_epilogue_def
               split: option.splits result.splits if_splits)
    from function_body_grows [OF assms(1) grows_call_entry this] assms(2) Exit
    show ?thesis by (simp add: grows_trans [of c0 c])
  qed
qed

lemma cmd_call_grows:
  "exec_grows exec \<Longrightarrow> grows c0 c \<Longrightarrow> cmd_call exec c tokens = Some r \<Longrightarrow> result_grows c0 r"
  by (auto simp: cmd_call_def split: option.splits result.splits
           dest: execute_function_grows)

lemma dispatch_grows:
  assumes "exec_grows exec" and "grows c0 c" and "dispatch k exec me c tokens command = Some r"
  shows "result_grows c0 r"
proof -
  note parts = cmd_set_grows [OF assms(2)] cmd_simple_grows [OF assms(2)]
    cmd_trace_grows [OF assms(2)] cmd_return_grows [OF assms(2)]
    error_here_grows [OF assms(2)]
    cmd_repeat_grows [OF assms(1,2)] cmd_if_grows [OF assms(1,2)]
    cmd_while_grows [OF assms(1,2)] cmd_for_grows [OF assms(1,2)]
    cmd_try_grows [OF assms(1,2)] cmd_import_grows [OF assms(1,2)]
    cmd_call_grows [OF assms(1,2)]
  show ?thesis
    using assms(3) assms(2) parts
    unfolding dispatch_def
    by (simp split: if_splits add: show_help_def show_cheatsheet_def show_guided_tutorial_def)
      auto
qed

lemma landing_grows:
  "exec_grows exec \<Longrightarrow> (\<And>r0. x = Some r0 \<Longrightarrow> result_grows c0 r0)
     \<Longrightarrow> landing n exec me x = Some r \<Longrightarrow> result_grows c0 r"
proof (induction n arbitrary: x)
  case 0
  show ?case
  proof (cases x)
    case None
    with 0 show ?thesis by simp
  next
    case (Some r0)
    with 0 show ?thesis
      by (cases r0) (auto split: if_splits)
  qed
next
  case (Suc n)
  show ?case
  proof (cases x)
    case None
    with Suc.prems show ?thesis by simp
  next
    case (Some r0)
    show ?thesis
    proof (cases r0)
      case (Fault c)
      with Some Suc.prems(2) have g: "grows c0 c" by fastforce
      show ?thesis
      proof (cases "error_buf c = (me, AtLine)")
        case True
        with Suc.prems(3) Some Fault g show ?thesis by auto
      next
        case False
        show ?thesis
        proof (cases "error_buf c = (me, AtTry)")
          case True
          with False Suc.prems(3) Some Fault
          have l: "landing n exec me (try_catch exec c) = Some r" by simp
          show ?thesis
            by (rule Suc.IH [OF Suc.prems(1) _ l]) (rule try_catch_grows [OF Suc.prems(1) g])
        next
          case f2: False
          with False Suc.prems(3) Some Fault g show ?thesis by auto
        qed
      qed
    qed (use Some Suc.prems in auto)
  qed
qed

lemma execute_line_body_grows:
  assumes "exec_grows exec"
  shows "exec_grows (execute_line_body k exec)"
  unfolding exec_grows_def
proof (intro allI impI)
  fix c l r
  assume a: "execute_line_body k exec c l = Some r"
  let ?c1 = "c\<lparr>activations := activations c + 1, error_buf := (activations c, AtLine)\<rparr>"
  show "result_grows c r"
  proof (cases "tokenize l = []")
    case True
    with a show ?thesis by (auto simp: execute_line_body_def Let_def)
  next
    case False
    let ?d = "dispatch k exec (activations c)
                (debug_log ?c1 (''Executing command: '' @ map toupper (hd (tokenize l))))
                (tokenize l) (map toupper (hd (tokenize l)))"
    from a False have l: "landing k exec (activations c) ?d = Some r"
      by (simp add: execute_line_body_def Let_def)
    have g: "grows c (debug_log ?c1 (''Executing command: '' @ map toupper (hd (tokenize l))))"
      by simp
    show ?thesis
      by (rule landing_grows [OF assms _ l]) (rule dispatch_grows [OF assms g])
  qed
qed

lemma execute_line_grows: "exec_grows (execute_line k)"
proof (induction k)
  case 0
  show ?case by (simp add: exec_grows_def)
next
  case (Suc k)
  have "execute_line (Suc k) = execute_line_body k (execute_line k)"
    by (intro ext) simp
  with execute_line_body_grows [OF Suc] show ?case by simp
qed



lemma execute_line_bounds:
  assumes "execute_line k ctx line = Some r"
    and "r = Normal () c \<or> r = Fault c \<or> r = Return c \<or> r = Exit c"
  shows "grows ctx c"
proof -
  from execute_line_grows assms(1) have "result_grows ctx r"
    by (rule exec_growsD)
  with assms(2) show ?thesis by auto
qed

subsection \<open>Scope of a call\<close>




subsection \<open>Capacity\<close>

text \<open>
  C5, as the claim states it, at a call made when the call stack holds 100 names: the push
  is left out and nothing at all is written, so no capacity fault is reported.
\<close>

theorem full_call_stack_is_not_reported:
  "MAX_CALL_STACK_DEPTH \<le> length (call_stack full_stack)
   \<and> (case execute_function (execute_line 10) full_stack
             \<lparr>f_name = ''g'', f_params = [], f_code_lines = []\<rparr> [] of
         Some (Normal v c) \<Rightarrow> outputs c = outputs full_stack \<and> outputs c = []
       | _ \<Rightarrow> False)"
  by code_simp

text \<open>
  C5, amended. Assigning a new name to a full store and defining a function in a full
  registry each print their report and change nothing else. A call on a full call stack is
  not reported. The registry stays within its bound under \<^verbatim>\<open>define_function\<close>; and
  whatever way a line ends that \<^verbatim>\<open>execute_line\<close> runs, the store and the call stack
  are within their bounds afterwards if they were before, and the registry is the same.
\<close>

theorem capacity_bounds:
  "(nm \<notin> set (map v_name (variables ctx)) \<and> MAX_VARIABLES \<le> length (variables ctx)
      \<longrightarrow> set_variable ctx nm val ty = print_error ctx ''Maximum variable limit reached'' (- 1)
          \<and> variables (set_variable ctx nm val ty) = variables ctx)
   \<and> (2 \<le> length tokens \<and> MAX_FUNCTIONS \<le> length (function_table ctx)
      \<longrightarrow> define_function ctx tokens
            = print_error ctx ''Maximum function limit reached'' (current_line ctx + 1)
          \<and> function_table (define_function ctx tokens) = function_table ctx)
   \<and> (MAX_CALL_STACK_DEPTH \<le> length (call_stack ctx)
      \<longrightarrow> (case execute_function exec ctx \<lparr>f_name = fn, f_params = [], f_code_lines = []\<rparr> [] of
             Some (Normal v c') \<Rightarrow> outputs c' = outputs ctx
           | _ \<Rightarrow> False))
   \<and> (length (function_table ctx) \<le> MAX_FUNCTIONS
      \<longrightarrow> length (function_table (define_function ctx tokens)) \<le> MAX_FUNCTIONS)
   \<and> (execute_line k ctx line = Some r
        \<and> (r = Normal () c \<or> r = Fault c \<or> r = Return c \<or> r = Exit c)
        \<and> length (variables ctx) \<le> MAX_VARIABLES
        \<and> length (call_stack ctx) \<le> MAX_CALL_STACK_DEPTH
      \<longrightarrow> length (variables c) \<le> MAX_VARIABLES
          \<and> length (call_stack c) \<le> MAX_CALL_STACK_DEPTH
          \<and> function_table c = function_table ctx)"
proof (intro conjI impI)
  assume a: "nm \<notin> set (map v_name (variables ctx)) \<and> MAX_VARIABLES \<le> length (variables ctx)"
  then show "set_variable ctx nm val ty = print_error ctx ''Maximum variable limit reached'' (- 1)"
    by (simp add: set_variable_def)
  then show "variables (set_variable ctx nm val ty) = variables ctx"
    by simp
next
  assume a: "2 \<le> length tokens \<and> MAX_FUNCTIONS \<le> length (function_table ctx)"
  then show "define_function ctx tokens
      = print_error ctx ''Maximum function limit reached'' (current_line ctx + 1)"
    by (simp add: define_function_def)
  then show "function_table (define_function ctx tokens) = function_table ctx"
    by simp
next
  assume "MAX_CALL_STACK_DEPTH \<le> length (call_stack ctx)"
  then show "case execute_function exec ctx \<lparr>f_name = fn, f_params = [], f_code_lines = []\<rparr> [] of
             Some (Normal v c') \<Rightarrow> outputs c' = outputs ctx
           | _ \<Rightarrow> False"
    by (simp add: execute_function_def function_epilogue_def Let_def)
next
  assume "length (function_table ctx) \<le> MAX_FUNCTIONS"
  then show "length (function_table (define_function ctx tokens)) \<le> MAX_FUNCTIONS"
    by (auto simp: define_function_def read_block_def split: prod.splits)
next
  assume a: "execute_line k ctx line = Some r
        \<and> (r = Normal () c \<or> r = Fault c \<or> r = Return c \<or> r = Exit c)
        \<and> length (variables ctx) \<le> MAX_VARIABLES
        \<and> length (call_stack ctx) \<le> MAX_CALL_STACK_DEPTH"
  then have g: "grows ctx c"
    using execute_line_bounds by blast
  with a show "length (variables c) \<le> MAX_VARIABLES" by (simp add: grows_def)
  from g a show "length (call_stack c) \<le> MAX_CALL_STACK_DEPTH" by (simp add: grows_def)
  from g show "function_table c = function_table ctx" by (simp add: grows_def)
qed

theorem capacity_bounds_witness:
  "(''b'' \<notin> set (map v_name (variables full_store))
      \<and> MAX_VARIABLES \<le> length (variables full_store))
   \<and> (set_variable full_store ''b'' ''1'' TYPE_FLOAT
         = print_error full_store ''Maximum variable limit reached'' (- 1)
       \<and> variables (set_variable full_store ''b'' ''1'' TYPE_FLOAT) = variables full_store)
   \<and> (2 \<le> length [''FUNCTION'', ''h'']
       \<and> MAX_FUNCTIONS \<le> length (function_table full_registry))
   \<and> (define_function full_registry [''FUNCTION'', ''h'']
         = print_error full_registry ''Maximum function limit reached''
             (current_line full_registry + 1)
       \<and> function_table (define_function full_registry [''FUNCTION'', ''h''])
           = function_table full_registry)
   \<and> MAX_CALL_STACK_DEPTH \<le> length (call_stack full_stack)
   \<and> (case execute_function (execute_line 10) full_stack
             \<lparr>f_name = ''g'', f_params = [], f_code_lines = []\<rparr> [] of
         Some (Normal v c') \<Rightarrow> outputs c' = outputs full_stack
       | _ \<Rightarrow> False)
   \<and> (execute_line 10 full_store ''SET b = 1'' = Some (Normal () full_store_after)
       \<and> length (variables full_store) \<le> MAX_VARIABLES
       \<and> length (call_stack full_store) \<le> MAX_CALL_STACK_DEPTH)
   \<and> (length (variables full_store_after) \<le> MAX_VARIABLES
       \<and> length (call_stack full_store_after) \<le> MAX_CALL_STACK_DEPTH
       \<and> function_table full_store_after = function_table full_store)"
proof -
  have pre: "''b'' \<notin> set (map v_name (variables full_store))
      \<and> MAX_VARIABLES \<le> length (variables full_store)"
    by code_simp
  have reg: "2 \<le> length [''FUNCTION'', ''h'']
      \<and> MAX_FUNCTIONS \<le> length (function_table full_registry)"
    by code_simp
  have stk: "MAX_CALL_STACK_DEPTH \<le> length (call_stack full_stack)"
    by code_simp
  have run: "execute_line 10 full_store ''SET b = 1'' = Some (Normal () full_store_after)
      \<and> length (variables full_store) \<le> MAX_VARIABLES
      \<and> length (call_stack full_store) \<le> MAX_CALL_STACK_DEPTH"
    by code_simp
  note t1 = capacity_bounds [where ctx = full_store and nm = "''b''" and val = "''1''"
      and ty = TYPE_FLOAT and k = 10 and line = "''SET b = 1''"
      and r = "Normal () full_store_after" and c = full_store_after]
  note t2 = capacity_bounds [where ctx = full_registry and tokens = "[''FUNCTION'', ''h'']"]
  note t3 = capacity_bounds [where ctx = full_stack and exec = "execute_line 10" and fn = "''g''"]
  have s1: "set_variable full_store ''b'' ''1'' TYPE_FLOAT
         = print_error full_store ''Maximum variable limit reached'' (- 1)
       \<and> variables (set_variable full_store ''b'' ''1'' TYPE_FLOAT) = variables full_store"
    using t1 [THEN conjunct1] pre by (rule mp)
  have s2: "define_function full_registry [''FUNCTION'', ''h'']
         = print_error full_registry ''Maximum function limit reached''
             (current_line full_registry + 1)
       \<and> function_table (define_function full_registry [''FUNCTION'', ''h''])
           = function_table full_registry"
    using t2 [THEN conjunct2, THEN conjunct1] reg by (rule mp)
  have s3: "case execute_function (execute_line 10) full_stack
             \<lparr>f_name = ''g'', f_params = [], f_code_lines = []\<rparr> [] of
         Some (Normal v c') \<Rightarrow> outputs c' = outputs full_stack
       | _ \<Rightarrow> False"
    using t3 [THEN conjunct2, THEN conjunct2, THEN conjunct1] stk by (rule mp)
  have run': "execute_line 10 full_store ''SET b = 1'' = Some (Normal () full_store_after)
        \<and> (Normal () full_store_after = Normal () full_store_after
            \<or> Normal () full_store_after = Fault full_store_after
            \<or> Normal () full_store_after = Return full_store_after
            \<or> Normal () full_store_after = Exit full_store_after)
        \<and> length (variables full_store) \<le> MAX_VARIABLES
        \<and> length (call_stack full_store) \<le> MAX_CALL_STACK_DEPTH"
    using run by (intro conjI disjI1) (erule conjunct1, rule refl, (elim conjE, assumption)+)
  have s5: "length (variables full_store_after) \<le> MAX_VARIABLES
       \<and> length (call_stack full_store_after) \<le> MAX_CALL_STACK_DEPTH
       \<and> function_table full_store_after = function_table full_store"
    using t1 [THEN conjunct2, THEN conjunct2, THEN conjunct2, THEN conjunct2] run' by (rule mp)
  show ?thesis
    by (intro conjI pre [THEN conjunct1] pre [THEN conjunct2] s1 [THEN conjunct1]
          s1 [THEN conjunct2] reg [THEN conjunct1] reg [THEN conjunct2] s2 [THEN conjunct1]
          s2 [THEN conjunct2] stk s3 run [THEN conjunct1] run [THEN conjunct2, THEN conjunct1]
          run [THEN conjunct2, THEN conjunct2] s5 [THEN conjunct1]
          s5 [THEN conjunct2, THEN conjunct1] s5 [THEN conjunct2, THEN conjunct2])
qed

subsection \<open>The FOR loop\<close>



end
